theory Spec2Isabelle
  imports Complex_Main
begin

section \<open>Data model (types module)\<close>

text \<open>
  JavaScript numbers that hold schedule values, hours and day counts are integers in
  every place the program writes them (parsed with parseInt, or built from a floored
  cell index), so they are modelled as \<open>int\<close>. Pixel quantities and the quotients
  by 5 of the bar geometry are rationals: first with exact arithmetic, which gives the
  formulas of the geometry, then with the rounding of double precision, which decides
  the way back from a pixel offset to a value.
\<close>

datatype ViewScale = Hour | Day | Week | Month

record HourScaleSettings =
  startHour :: int
  endHour :: int

record DayScaleSettings =
  dayCount :: int
  weekCount :: int
  monthCount :: int

record WorkdaySettings =
  skipSaturday :: bool
  skipSunday :: bool
  skipHolidays :: bool
  customHolidays :: "string list"
  customWorkdays :: "string list"
  showOnlyWorkdays :: bool

record Interval =
  start :: int
  endv :: int

record ScaleBasedSchedule =
  hour :: Interval
  day :: Interval
  week :: Interval
  month :: Interval

record Project =
  project_id :: string
  project_startDate :: string
  isProvisional :: bool
  viewScale :: ViewScale
  workdaySettings :: WorkdaySettings
  hourScaleSettings :: "HourScaleSettings option"
  dayScaleSettings :: "DayScaleSettings option"

text \<open>A task as the store receives it from the chart (the store adds the id).\<close>

record Task =
  projectId :: string
  task_name :: string
  assignee :: string
  startDate :: string
  endDate :: string
  task_order :: nat
  scaleSchedule :: "ScaleBasedSchedule option"

definition DEFAULT_HOUR_SCALE_SETTINGS :: HourScaleSettings where
  "DEFAULT_HOUR_SCALE_SETTINGS = \<lparr>startHour = 8, endHour = 18\<rparr>"

definition DEFAULT_DAY_SCALE_SETTINGS :: DayScaleSettings where
  "DEFAULT_DAY_SCALE_SETTINGS = \<lparr>dayCount = 7, weekCount = 30, monthCount = 60\<rparr>"

definition DEFAULT_SCALE_SCHEDULE :: ScaleBasedSchedule where
  "DEFAULT_SCALE_SCHEDULE =
     \<lparr>hour = \<lparr>start = 480, endv = 540\<rparr>,
      day = \<lparr>start = 1, endv = 3\<rparr>,
      week = \<lparr>start = 1, endv = 7\<rparr>,
      month = \<lparr>start = 1, endv = 14\<rparr>\<rparr>"

definition DEFAULT_WORKDAY_SETTINGS :: WorkdaySettings where
  "DEFAULT_WORKDAY_SETTINGS =
     \<lparr>skipSaturday = False, skipSunday = True, skipHolidays = True,
      customHolidays = [], customWorkdays = [], showOnlyWorkdays = False\<rparr>"

text \<open>\<open>schedule[scale]\<close> and \<open>{...schedule, [scale]: v}\<close>.\<close>

fun scale_get :: "ScaleBasedSchedule \<Rightarrow> ViewScale \<Rightarrow> Interval" where
  "scale_get s Hour = hour s"
| "scale_get s Day = day s"
| "scale_get s Week = week s"
| "scale_get s Month = month s"

fun scale_set :: "ScaleBasedSchedule \<Rightarrow> ViewScale \<Rightarrow> Interval \<Rightarrow> ScaleBasedSchedule" where
  "scale_set s Hour v = s\<lparr>hour := v\<rparr>"
| "scale_set s Day v = s\<lparr>day := v\<rparr>"
| "scale_set s Week v = s\<lparr>week := v\<rparr>"
| "scale_set s Month v = s\<lparr>month := v\<rparr>"

datatype Field = FStart | FEnd

fun field_get :: "Interval \<Rightarrow> Field \<Rightarrow> int" where
  "field_get i FStart = start i"
| "field_get i FEnd = endv i"

fun field_set :: "Interval \<Rightarrow> Field \<Rightarrow> int \<Rightarrow> Interval" where
  "field_set i FStart v = i\<lparr>start := v\<rparr>"
| "field_set i FEnd v = i\<lparr>endv := v\<rparr>"

section \<open>Chart settings shared by the chart components\<close>

definition hourSettings :: "Project \<Rightarrow> HourScaleSettings" where
  "hourSettings project =
     (case hourScaleSettings project of None \<Rightarrow> DEFAULT_HOUR_SCALE_SETTINGS | Some h \<Rightarrow> h)"

definition startMinutes :: "Project \<Rightarrow> int" where
  "startMinutes project = startHour (hourSettings project) * 60"

definition endMinutes :: "Project \<Rightarrow> int" where
  "endMinutes project = endHour (hourSettings project) * 60"

definition daySettings :: "Project \<Rightarrow> DayScaleSettings" where
  "daySettings project =
     (case dayScaleSettings project of None \<Rightarrow> DEFAULT_DAY_SCALE_SETTINGS | Some d \<Rightarrow> d)"

definition getMinValue :: "Project \<Rightarrow> int" where
  "getMinValue project = (if viewScale project = Hour then startMinutes project else 1)"

definition getMaxValue :: "Project \<Rightarrow> int" where
  "getMaxValue project =
     (case viewScale project of
        Hour \<Rightarrow> endMinutes project
      | Day \<Rightarrow> dayCount (daySettings project)
      | Week \<Rightarrow> weekCount (daySettings project)
      | Month \<Rightarrow> monthCount (daySettings project))"

section \<open>The hour grid: timeSlots\<close>

text \<open>
  \<open>for (let m = startMinutes; m <= endMinutes; m += 5) slots.push(m)\<close>, the same loop
  in the chart calendar, the print preview and the export dialogue.
\<close>

function timeSlots_loop :: "int \<Rightarrow> int \<Rightarrow> int list \<Rightarrow> int list" where
  "timeSlots_loop m e slots =
     (if m \<le> e then timeSlots_loop (m + 5) e (slots @ [m]) else slots)"
  by pat_completeness auto
termination
  by (relation "measure (\<lambda>(m, e, slots). nat (e - m + 1))") auto

definition timeSlots :: "Project \<Rightarrow> int list" where
  "timeSlots project = timeSlots_loop (startMinutes project) (endMinutes project) []"

section \<open>Calendar rules (lib/holidays)\<close>

text \<open>
  A JavaScript \<open>Date\<close> is used by this module only through its local calendar day:
  \<open>format(date, 'yyyy-MM-dd')\<close>, \<open>isSaturday\<close>, \<open>isSunday\<close> and the holiday
  lookup all ignore the time of day, and \<open>addDays(d, 1)\<close> moves to the next calendar
  day. A date is therefore the number of its calendar day, counted from 1970-01-01
  (day 0, a Thursday). The functions of the date library are written out on day
  numbers; the holiday table of the holiday library is a parameter \<open>jp\<close>.
\<close>

type_synonym date = int

definition addDays :: "date \<Rightarrow> int \<Rightarrow> date" where
  "addDays d n = d + n"

definition isSaturday :: "date \<Rightarrow> bool" where
  "isSaturday d = (d mod 7 = 2)"

definition isSunday :: "date \<Rightarrow> bool" where
  "isSunday d = (d mod 7 = 3)"

text \<open>Year, month and day of a day number (proleptic Gregorian calendar).\<close>

definition civil_from_days :: "date \<Rightarrow> int \<times> int \<times> int" where
  "civil_from_days d =
     (let z = d + 719468;
          era = z div 146097;
          doe = z - era * 146097;
          yoe = (doe - doe div 1460 + doe div 36524 - doe div 146096) div 365;
          y = yoe + era * 400;
          doy = doe - (365 * yoe + yoe div 4 - yoe div 100);
          mp = (5 * doy + 2) div 153;
          dd = doy - (153 * mp + 2) div 5 + 1;
          mm = (if mp < 10 then mp + 3 else mp - 9)
      in (if mm \<le> 2 then y + 1 else y, mm, dd))"

definition digit :: "int \<Rightarrow> char" where
  "digit k = ''0123456789'' ! nat (k mod 10)"

text \<open>\<open>format(date, 'yyyy-MM-dd')\<close>, for the years 0 to 9999.\<close>

definition format_ymd :: "date \<Rightarrow> string" where
  "format_ymd d =
     (case civil_from_days d of (y, m, dd) \<Rightarrow>
        [digit (y div 1000), digit (y div 100), digit (y div 10), digit y, CHR ''-'',
         digit (m div 10), digit m, CHR ''-'', digit (dd div 10), digit dd])"

definition isHoliday :: "(date \<Rightarrow> bool) \<Rightarrow> date \<Rightarrow> bool" where
  "isHoliday jp d = jp d"

definition isNonWorkday :: "(date \<Rightarrow> bool) \<Rightarrow> date \<Rightarrow> WorkdaySettings \<Rightarrow> bool" where
  "isNonWorkday jp d settings =
     (let dateStr = format_ymd d in
      if dateStr \<in> set (customWorkdays settings) then False
      else if dateStr \<in> set (customHolidays settings) then True
      else if skipSaturday settings \<and> isSaturday d then True
      else if skipSunday settings \<and> isSunday d then True
      else if skipHolidays settings \<and> isHoliday jp d then True
      else False)"

text \<open>
  The loop of \<open>addWorkdays\<close> has no bound: it runs until \<open>count\<close> reaches
  \<open>workdays\<close>. \<open>None\<close> is the loop that never ends.
\<close>

partial_function (option) addWorkdays_loop ::
  "(date \<Rightarrow> bool) \<Rightarrow> WorkdaySettings \<Rightarrow> int \<Rightarrow> date \<Rightarrow> int \<Rightarrow> date option" where
  "addWorkdays_loop jp settings workdays current count =
     (if count < workdays
      then addWorkdays_loop jp settings workdays (addDays current 1)
             (if \<not> isNonWorkday jp (addDays current 1) settings then count + 1 else count)
      else Some current)"

declare addWorkdays_loop.simps [code]

definition addWorkdays :: "(date \<Rightarrow> bool) \<Rightarrow> date \<Rightarrow> int \<Rightarrow> WorkdaySettings \<Rightarrow> date option" where
  "addWorkdays jp startd workdays settings = addWorkdays_loop jp settings workdays startd 0"

section \<open>Reading and writing a task's interval on the active scale\<close>

definition currentSchedule :: "Task \<Rightarrow> ScaleBasedSchedule" where
  "currentSchedule task =
     (case scaleSchedule task of None \<Rightarrow> DEFAULT_SCALE_SCHEDULE | Some s \<Rightarrow> s)"

text \<open>
  \<open>getScaleValue\<close> is the same function in the task bar, the chart calendar, the print
  preview and the export dialogue. Every scale of a stored schedule is present by its
  type, so the fallback to the default applies to a task with no schedule.
\<close>

definition getScaleValue :: "Project \<Rightarrow> Task \<Rightarrow> Field \<Rightarrow> int" where
  "getScaleValue project task field =
     field_get (scale_get (currentSchedule task) (viewScale project)) field"

text \<open>The store's \<open>updateTask(id, {scaleSchedule: s})\<close> on the task it finds.\<close>

definition updateTask :: "Task \<Rightarrow> ScaleBasedSchedule \<Rightarrow> Task" where
  "updateTask task s = task\<lparr>scaleSchedule := Some s\<rparr>"

text \<open>\<open>updateScaleValue\<close> of the task bar: bounds the value, then writes one field.\<close>

definition TaskBar_updateScaleValue :: "Project \<Rightarrow> Task \<Rightarrow> Field \<Rightarrow> int \<Rightarrow> Task" where
  "TaskBar_updateScaleValue project task field v =
     (let cur = currentSchedule task;
          scale = viewScale project;
          clampedValue = max (getMinValue project) (min (getMaxValue project) v);
          newSchedule = scale_set cur scale (field_set (scale_get cur scale) field clampedValue)
      in updateTask task newSchedule)"

text \<open>\<open>updateScaleValue\<close> of the chart calendar: writes the value as it is given.\<close>

definition ChartCalendar_updateScaleValue :: "Project \<Rightarrow> Task \<Rightarrow> Field \<Rightarrow> int \<Rightarrow> Task" where
  "ChartCalendar_updateScaleValue project task field v =
     (let cur = currentSchedule task;
          scale = viewScale project;
          newSchedule = scale_set cur scale (field_set (scale_get cur scale) field v)
      in updateTask task newSchedule)"

section \<open>The number fields of the chart calendar\<close>

text \<open>
  \<open>Math.round\<close> rounds to the nearest integer, halves upwards. JavaScript's \<open>%\<close>
  takes the sign of the dividend. \<open>parseInt\<close> gives an integer or NaN; its result is
  an \<open>int option\<close>, and \<open>x || d\<close> replaces NaN and 0 by \<open>d\<close>.
\<close>

definition Math_round :: "rat \<Rightarrow> int" where
  "Math_round x = \<lfloor>x + 1 / 2\<rfloor>"

definition js_rem :: "int \<Rightarrow> int \<Rightarrow> int" where
  "js_rem a b = sgn a * (\<bar>a\<bar> mod \<bar>b\<bar>)"

definition or_else :: "int option \<Rightarrow> int \<Rightarrow> int" where
  "or_else p d = (case p of None \<Rightarrow> d | Some v \<Rightarrow> if v = 0 then d else v)"

definition minutesToHoursAndMinutes :: "int \<Rightarrow> int \<times> int" where
  "minutesToHoursAndMinutes minutes = (minutes div 60, js_rem minutes 60)"

definition hoursAndMinutesToMinutes :: "int \<Rightarrow> int \<Rightarrow> int" where
  "hoursAndMinutesToMinutes hours minutes =
     (let roundedMinutes = Math_round (of_int minutes / 5) * 5
      in hours * 60 + roundedMinutes)"

text \<open>The hours box of a start or end time (hour scale).\<close>

definition hoursInput_onChange :: "Project \<Rightarrow> Task \<Rightarrow> Field \<Rightarrow> int option \<Rightarrow> Task" where
  "hoursInput_onChange project task field parsed =
     (case minutesToHoursAndMinutes (getScaleValue project task field) of (hours, minutes) \<Rightarrow>
        let h = or_else parsed (startHour (hourSettings project));
            clampedH = max (startHour (hourSettings project)) (min (endHour (hourSettings project)) h);
            newMinutes = hoursAndMinutesToMinutes clampedH minutes
        in ChartCalendar_updateScaleValue project task field
             (max (startMinutes project) (min (endMinutes project) newMinutes)))"

text \<open>The minutes box of a start or end time (hour scale).\<close>

definition minutesInput_onChange :: "Project \<Rightarrow> Task \<Rightarrow> Field \<Rightarrow> int option \<Rightarrow> Task" where
  "minutesInput_onChange project task field parsed =
     (case minutesToHoursAndMinutes (getScaleValue project task field) of (hours, minutes) \<Rightarrow>
        let m = or_else parsed 0;
            roundedM = Math_round (of_int m / 5) * 5;
            clampedM = max 0 (min 55 roundedM);
            newMinutes = hoursAndMinutesToMinutes hours clampedM
        in ChartCalendar_updateScaleValue project task field
             (max (startMinutes project) (min (endMinutes project) newMinutes)))"

text \<open>
  The single box of a start or end day (day, week and month scale):
  \<open>Math.max(getMinValue(), Math.min(getMaxValue() || 999, value))\<close>.
\<close>

definition dayInput_onChange :: "Project \<Rightarrow> Task \<Rightarrow> Field \<Rightarrow> int option \<Rightarrow> Task" where
  "dayInput_onChange project task field parsed =
     (let v = or_else parsed (getMinValue project)
      in ChartCalendar_updateScaleValue project task field
           (max (getMinValue project) (min (or_else (Some (getMaxValue project)) 999) v)))"

section \<open>Bar geometry\<close>

record BarPosition =
  bar_left :: rat
  bar_width :: rat

text \<open>Start offset and duration in cells, the \<open>switch\<close> shared by all four views.\<close>

definition cell_span :: "Project \<Rightarrow> Task \<Rightarrow> rat \<times> rat" where
  "cell_span project task =
     (let startValue = getScaleValue project task FStart;
          endValue = getScaleValue project task FEnd
      in case viewScale project of
           Hour \<Rightarrow> (of_int (startValue - startMinutes project) / 5,
                    of_int (endValue - startValue) / 5 + 1)
         | _ \<Rightarrow> (of_int (startValue - 1), of_int (endValue - startValue + 1)))"

text \<open>\<open>getBarPosition\<close> of the task bar.\<close>

definition getBarPosition :: "Project \<Rightarrow> Task \<Rightarrow> rat \<Rightarrow> BarPosition" where
  "getBarPosition project task cellWidth =
     (case cell_span project task of (startOffset, duration) \<Rightarrow>
        \<lparr>bar_left = max 0 startOffset * cellWidth,
         bar_width = max 1 duration * cellWidth - 4\<rparr>)"



text \<open>
  \<open>getTaskBarStyle\<close> of the chart calendar: \<open>left\<close> is \<open>startOffset * cellWidth\<close>,
  with no floor at 0.
\<close>

definition ChartCalendar_getTaskBarStyle :: "Project \<Rightarrow> Task \<Rightarrow> rat \<Rightarrow> BarPosition" where
  "ChartCalendar_getTaskBarStyle project task cellWidth =
     (case cell_span project task of (startOffset, duration) \<Rightarrow>
        \<lparr>bar_left = startOffset * cellWidth,
         bar_width = max duration 1 * cellWidth - 4\<rparr>)"

text \<open>
  The cell width that the chart calendar passes to its task bars; the print preview and
  the export dialogue use other positive constants.
\<close>

definition ChartCalendar_cellWidth :: "Project \<Rightarrow> rat" where
  "ChartCalendar_cellWidth project =
     (case viewScale project of Hour \<Rightarrow> 24 | Day \<Rightarrow> 32 | Week \<Rightarrow> 20 | Month \<Rightarrow> 14)"

section \<open>Dragging a task bar\<close>

datatype DragType = Move | ResizeStart | ResizeEnd

text \<open>
  The first lines of \<open>handleMouseMove\<close>: the cell under the pointer and the value it
  stands for. \<open>cellWidth\<close> is positive wherever the bar is used; a width of 0 would
  give NaN in the program and is outside this model. The quotient is exact here; the
  drag theorems below hold for whatever candidate comes out. \<open>newValue_f64\<close> further
  down rounds the quotient as a double.
\<close>

definition newValue :: "Project \<Rightarrow> rat \<Rightarrow> rat \<Rightarrow> int" where
  "newValue project cellWidth relativeX =
     (let cellIndex = \<lfloor>relativeX / cellWidth\<rfloor>
      in if viewScale project = Hour then startMinutes project + cellIndex * 5
         else cellIndex + 1)"

text \<open>
  One pointer-move frame. \<open>None\<close>: no update is sent to the store.
\<close>

definition handleMouseMove ::
  "Project \<Rightarrow> Task \<Rightarrow> rat \<Rightarrow> DragType \<Rightarrow> Interval \<Rightarrow> rat \<Rightarrow> Task option" where
  "handleMouseMove project task cellWidth dragType dragStartValues relativeX =
     (let minValue = getMinValue project;
          maxValue = getMaxValue project;
          nv = newValue project cellWidth relativeX
      in case dragType of
           Move \<Rightarrow>
             (let duration = endv dragStartValues - start dragStartValues;
                  newStart = max minValue (min (maxValue - duration) nv);
                  newEnd = newStart + duration;
                  newSchedule = scale_set (currentSchedule task) (viewScale project)
                                  \<lparr>start = newStart, endv = newEnd\<rparr>
              in Some (updateTask task newSchedule))
         | ResizeStart \<Rightarrow>
             (let currentEnd = getScaleValue project task FEnd
              in if nv < currentEnd \<and> nv \<ge> minValue
                 then Some (TaskBar_updateScaleValue project task FStart nv)
                 else None)
         | ResizeEnd \<Rightarrow>
             (let currentStart = getScaleValue project task FStart;
                  increment = (if viewScale project = Hour then 5 else 1);
                  endValue = nv + increment
              in if endValue > currentStart \<and> endValue \<le> maxValue
                 then Some (TaskBar_updateScaleValue project task FEnd endValue)
                 else None))"

text \<open>
  The gesture state of one task bar (its \<open>useState\<close> cells) with the task it shows,
  and the three pointer events. The move and up listeners exist only while
  \<open>isDragging\<close>, \<open>dragType\<close> and \<open>dragStartValues\<close> are all set.
\<close>

record DragState =
  shown_task :: Task
  isDragging :: bool
  dragType :: "DragType option"
  dragStartValues :: "Interval option"

datatype PointerEvent = MouseDown DragType | MouseMove rat | MouseUp

definition initial_drag :: "Task \<Rightarrow> DragState" where
  "initial_drag task =
     \<lparr>shown_task = task, isDragging = False, dragType = None, dragStartValues = None\<rparr>"

definition handleMouseDown :: "Project \<Rightarrow> DragState \<Rightarrow> DragType \<Rightarrow> DragState" where
  "handleMouseDown project st ty =
     st\<lparr>isDragging := True, dragType := Some ty,
        dragStartValues := Some \<lparr>start = getScaleValue project (shown_task st) FStart,
                                 endv = getScaleValue project (shown_task st) FEnd\<rparr>\<rparr>"

definition handleMouseUp :: "DragState \<Rightarrow> DragState" where
  "handleMouseUp st = st\<lparr>isDragging := False, dragType := None\<rparr>"

fun pointer_step :: "Project \<Rightarrow> rat \<Rightarrow> DragState \<Rightarrow> PointerEvent \<Rightarrow> DragState" where
  "pointer_step project cellWidth st (MouseDown ty) = handleMouseDown project st ty"
| "pointer_step project cellWidth st (MouseMove x) =
     (case (isDragging st, dragType st, dragStartValues st) of
        (True, Some ty, Some origin) \<Rightarrow>
          (case handleMouseMove project (shown_task st) cellWidth ty origin x of
             None \<Rightarrow> st
           | Some task' \<Rightarrow> st\<lparr>shown_task := task'\<rparr>)
      | _ \<Rightarrow> st)"
| "pointer_step project cellWidth st MouseUp =
     (case (isDragging st, dragType st, dragStartValues st) of
        (True, Some ty, Some origin) \<Rightarrow> handleMouseUp st
      | _ \<Rightarrow> st)"

definition run_pointer :: "Project \<Rightarrow> rat \<Rightarrow> DragState \<Rightarrow> PointerEvent list \<Rightarrow> DragState" where
  "run_pointer project cellWidth st evs = foldl (pointer_step project cellWidth) st evs"

section \<open>Adding a task\<close>

text \<open>\<open>String.prototype.trim\<close>, on the white space of ASCII.\<close>

definition is_space :: "char \<Rightarrow> bool" where
  "is_space c = (c \<in> set [CHR '' '', CHR 0x09, CHR 0x0A, CHR 0x0B, CHR 0x0C, CHR 0x0D])"

definition trim :: "string \<Rightarrow> string" where
  "trim s = rev (dropWhile is_space (rev (dropWhile is_space s)))"

text \<open>
  \<open>handleAddTask\<close>: the task handed to the store's \<open>addTask\<close>, or \<open>None\<close> when the
  name is blank and nothing is added. \<open>lastSchedule.hour?.end || 540\<close> takes 540 for
  an end of 0 as well.
\<close>

definition handleAddTask :: "Project \<Rightarrow> Task list \<Rightarrow> string \<Rightarrow> Task option" where
  "handleAddTask project tasks newTaskName =
     (if trim newTaskName = [] then None
      else
        let sched =
          (if viewScale project = Hour \<and> length tasks > 0
           then
             (let lastTask = last tasks;
                  lastSchedule = currentSchedule lastTask;
                  lastEndTime = or_else (Some (endv (hour lastSchedule)))
                                  (endv (hour DEFAULT_SCALE_SCHEDULE))
              in Some (DEFAULT_SCALE_SCHEDULE
                         \<lparr>hour := \<lparr>start = lastEndTime, endv = lastEndTime + 60\<rparr>\<rparr>))
           else None)
        in Some \<lparr>projectId = project_id project,
                 task_name = trim newTaskName,
                 assignee = [],
                 startDate = project_startDate project,
                 endDate = project_startDate project,
                 task_order = length tasks,
                 scaleSchedule = sched\<rparr>)"

section \<open>Sample data\<close>

definition demo_project :: "ViewScale \<Rightarrow> Project" where
  "demo_project sc =
     \<lparr>project_id = ''p1'', project_startDate = ''2024-04-01'', isProvisional = False,
      viewScale = sc, workdaySettings = DEFAULT_WORKDAY_SETTINGS,
      hourScaleSettings = None, dayScaleSettings = None\<rparr>"

definition demo_task :: "ScaleBasedSchedule option \<Rightarrow> Task" where
  "demo_task s =
     \<lparr>projectId = ''p1'', task_name = ''survey'', assignee = [],
      startDate = ''2024-04-01'', endDate = ''2024-04-01'', task_order = 0,
      scaleSchedule = s\<rparr>"

text \<open>A holiday table for examples: four national holidays of early 2024.\<close>

definition holidays_2024 :: "date \<Rightarrow> bool" where
  "holidays_2024 d = (d \<in> set [19723, 19730, 19764, 19776])"

definition day_2_4 :: Task where
  "day_2_4 = demo_task (Some (DEFAULT_SCALE_SCHEDULE\<lparr>day := \<lparr>start = 2, endv = 4\<rparr>\<rparr>))"

definition hour_1080_1140 :: Task where
  "hour_1080_1140 = demo_task (Some (DEFAULT_SCALE_SCHEDULE\<lparr>hour := \<lparr>start = 1080, endv = 1140\<rparr>\<rparr>))"

definition hour_600_660 :: Task where
  "hour_600_660 = demo_task (Some (DEFAULT_SCALE_SCHEDULE\<lparr>hour := \<lparr>start = 600, endv = 660\<rparr>\<rparr>))"


definition window_0_18 :: Project where
  "window_0_18 = (demo_project Hour)\<lparr>hourScaleSettings := Some \<lparr>startHour = 0, endHour = 18\<rparr>\<rparr>"

definition midnight_task :: Task where
  "midnight_task = demo_task (Some (DEFAULT_SCALE_SCHEDULE\<lparr>hour := \<lparr>start = 0, endv = 0\<rparr>\<rparr>))"

section \<open>Sequences of edits\<close>

text \<open>
  The events that change a task's schedule in the chart calendar: the pointer events of
  its task bar and a change of one of its number fields. The two time boxes exist on
  the hour scale, the day box on the three other scales.
\<close>

datatype EditorEvent =
    Pointer PointerEvent
  | HoursInput Field "int option"
  | MinutesInput Field "int option"
  | DayInput Field "int option"

fun editor_step :: "Project \<Rightarrow> rat \<Rightarrow> DragState \<Rightarrow> EditorEvent \<Rightarrow> DragState" where
  "editor_step project cellWidth st (Pointer e) = pointer_step project cellWidth st e"
| "editor_step project cellWidth st (HoursInput f p) =
     (if viewScale project = Hour
      then st\<lparr>shown_task := hoursInput_onChange project (shown_task st) f p\<rparr> else st)"
| "editor_step project cellWidth st (MinutesInput f p) =
     (if viewScale project = Hour
      then st\<lparr>shown_task := minutesInput_onChange project (shown_task st) f p\<rparr> else st)"
| "editor_step project cellWidth st (DayInput f p) =
     (if viewScale project \<noteq> Hour
      then st\<lparr>shown_task := dayInput_onChange project (shown_task st) f p\<rparr> else st)"

definition run_editor :: "Project \<Rightarrow> rat \<Rightarrow> DragState \<Rightarrow> EditorEvent list \<Rightarrow> DragState" where
  "run_editor project cellWidth st evs = foldl (editor_step project cellWidth) st evs"

text \<open>\<open>start \<le> end\<close> on each of the four scales.\<close>

definition ordered :: "ScaleBasedSchedule \<Rightarrow> bool" where
  "ordered s =
     (start (hour s) \<le> endv (hour s) \<and> start (day s) \<le> endv (day s)
      \<and> start (week s) \<le> endv (week s) \<and> start (month s) \<le> endv (month s))"

text \<open>The state of a drag with an ordered task and an ordered captured interval.\<close>

definition drag_ordered :: "DragState \<Rightarrow> bool" where
  "drag_ordered st \<longleftrightarrow>
     ordered (currentSchedule (shown_task st))
     \<and> (case dragStartValues st of None \<Rightarrow> True | Some origin \<Rightarrow> start origin \<le> endv origin)"

text \<open>Both fields of the hour interval on the 5-minute grid.\<close>

definition hour_on_grid :: "Task \<Rightarrow> bool" where
  "hour_on_grid task \<longleftrightarrow>
     5 dvd start (hour (currentSchedule task)) \<and> 5 dvd endv (hour (currentSchedule task))"

definition drag_on_grid :: "Project \<Rightarrow> DragState \<Rightarrow> bool" where
  "drag_on_grid project st \<longleftrightarrow>
     hour_on_grid (shown_task st)
     \<and> (viewScale project = Hour \<longrightarrow>
          (case dragStartValues st of None \<Rightarrow> True
           | Some origin \<Rightarrow> 5 dvd start origin \<and> 5 dvd endv origin))"

definition sample_pointer_events :: "PointerEvent list" where
  "sample_pointer_events =
     [MouseDown Move, MouseMove 163, MouseUp, MouseDown ResizeStart, MouseMove 97, MouseUp]"

definition sample_editor_events :: "EditorEvent list" where
  "sample_editor_events =
     [HoursInput FStart (Some 10), MinutesInput FStart (Some 32),
      Pointer (MouseDown Move), Pointer (MouseMove 250), Pointer MouseUp,
      Pointer (MouseDown ResizeEnd), Pointer (MouseMove 600), Pointer MouseUp,
      DayInput FEnd (Some 2)]"

definition day_5_3 :: Task where
  "day_5_3 = demo_task (Some (DEFAULT_SCALE_SCHEDULE\<lparr>day := \<lparr>start = 5, endv = 3\<rparr>\<rparr>))"

section \<open>Bar offset and cell index in double precision\<close>

text \<open>
  The program computes in IEEE 754 double precision. For integers below \<open>2^53\<close> every
  sum, difference and product is exact, which is why the schedule values are plain
  integers above; the bar's offset in pixels and the quotient \<open>relativeX / cellWidth\<close>
  are not integers in general, and the round trip from an offset back to a start
  depends on how they are rounded.

  \<open>f64_round\<close> rounds a rational number to the nearest double, ties to the even
  significand: the number is scaled by a power of two to a significand between \<open>2^52\<close>
  and \<open>2^53\<close>, which is rounded to an integer. It covers the normal range of doubles
  (magnitudes from \<open>2^-1022\<close> up to \<open>2^1024\<close>), where all pixel values lie. Each
  arithmetic operation of the program is the exact operation followed by \<open>f64_round\<close>.
\<close>

function bitlen :: "int \<Rightarrow> int" where
  "bitlen n = (if n \<le> 0 then 0 else 1 + bitlen (n div 2))"
  by pat_completeness auto
termination
  by (relation "measure nat") auto

declare bitlen.simps [simp del]

definition pow2 :: "int \<Rightarrow> rat" where
  "pow2 e = (if 0 \<le> e then 2 ^ nat e else 1 / 2 ^ nat (- e))"

definition round_half_even :: "rat \<Rightarrow> int" where
  "round_half_even m =
     (let f = \<lfloor>m\<rfloor>; r = m - of_int f
      in if r < 1 / 2 then f else if 1 / 2 < r then f + 1
         else if even f then f else f + 1)"

definition f64_pos :: "rat \<Rightarrow> rat" where
  "f64_pos x =
     (case quotient_of x of (p, q) \<Rightarrow>
        let t = bitlen p - bitlen q;
            e = (if pow2 t \<le> x then t else t - 1);
            ulp = pow2 (e - 52)
        in of_int (round_half_even (x / ulp)) * ulp)"

definition f64_round :: "rat \<Rightarrow> rat" where
  "f64_round x = (if x = 0 then 0 else if 0 < x then f64_pos x else - f64_pos (- x))"

text \<open>
  \<open>getBarPosition\<close> of the task bar and the first lines of \<open>handleMouseMove\<close> once
  more, with every operation rounded as the program rounds it.
\<close>

definition cell_span_f64 :: "Project \<Rightarrow> Task \<Rightarrow> rat \<times> rat" where
  "cell_span_f64 project task =
     (let startValue = of_int (getScaleValue project task FStart);
          endValue = of_int (getScaleValue project task FEnd)
      in case viewScale project of
           Hour \<Rightarrow> (f64_round (f64_round (startValue - of_int (startMinutes project)) / 5),
                    f64_round (f64_round (f64_round (endValue - startValue) / 5) + 1))
         | _ \<Rightarrow> (f64_round (startValue - 1),
                 f64_round (f64_round (endValue - startValue) + 1)))"

definition getBarPosition_f64 :: "Project \<Rightarrow> Task \<Rightarrow> rat \<Rightarrow> BarPosition" where
  "getBarPosition_f64 project task cellWidth =
     (case cell_span_f64 project task of (startOffset, duration) \<Rightarrow>
        \<lparr>bar_left = f64_round (max 0 startOffset * cellWidth),
         bar_width = f64_round (f64_round (max 1 duration * cellWidth) - 4)\<rparr>)"

definition newValue_f64 :: "Project \<Rightarrow> rat \<Rightarrow> rat \<Rightarrow> int" where
  "newValue_f64 project cellWidth relativeX =
     (let cellIndex = \<lfloor>f64_round (relativeX / cellWidth)\<rfloor>
      in if viewScale project = Hour then startMinutes project + cellIndex * 5
         else cellIndex + 1)"

definition hour_495_555 :: Task where
  "hour_495_555 = demo_task (Some (DEFAULT_SCALE_SCHEDULE\<lparr>hour := \<lparr>start = 495, endv = 555\<rparr>\<rparr>))"

section \<open>The hour grid is the 5-minute sequence of the window\<close>

declare timeSlots_loop.simps [simp del]

lemma map_upt_shift:
  "(m::int) # map (\<lambda>i. m + 5 + 5 * int i) [0..<k] = map (\<lambda>i. m + 5 * int i) [0..<Suc k]"
proof -
  have "map (\<lambda>i. m + 5 * int i) [0..<Suc k] =
          (m + 5 * int 0) # map (\<lambda>i. m + 5 * int (Suc i)) [0..<k]"
    unfolding upt_conv_Cons [OF zero_less_Suc] map_Suc_upt [symmetric] by (simp add: comp_def)
  then show ?thesis by (simp add: algebra_simps)
qed

lemma timeSlots_loop_eq:
  "timeSlots_loop m e slots =
     slots @ map (\<lambda>i. m + 5 * int i) [0..<(if m \<le> e then nat ((e - m) div 5 + 1) else 0)]"
proof (induction m e slots rule: timeSlots_loop.induct)
  case (1 m e slots)
  show ?case
  proof (cases "m \<le> e")
    case False
    then show ?thesis by (simp add: timeSlots_loop.simps)
  next
    case True
    define k where "k = (if m + 5 \<le> e then nat ((e - (m + 5)) div 5 + 1) else 0)"
    have k: "nat ((e - m) div 5 + 1) = Suc k"
      using True unfolding k_def by auto
    have "timeSlots_loop m e slots = timeSlots_loop (m + 5) e (slots @ [m])"
      using True by (subst timeSlots_loop.simps) simp
    also have "\<dots> = (slots @ [m]) @ map (\<lambda>i. m + 5 + 5 * int i) [0..<k]"
      using "1.IH" [OF True] unfolding k_def .
    also have "\<dots> = slots @ map (\<lambda>i. m + 5 * int i) [0..<Suc k]"
      using map_upt_shift [of m k] by simp
    finally show ?thesis using True k by simp
  qed
qed

text \<open>
  C4. For an hour window with \<open>startHour < endHour\<close> the generated hour grid is exactly
  \<open>startHour*60, startHour*60 + 5, ..., endHour*60\<close>: its \<open>i\<close>-th entry is
  \<open>startHour*60 + 5*i\<close>, it has \<open>(endHour - startHour)*12 + 1\<close> entries, the first is
  \<open>startHour*60\<close> and the last is \<open>endHour*60\<close>. The grid is a function of the window
  alone.
\<close>

theorem C4_hour_grid:
  assumes lt: "startHour (hourSettings project) < endHour (hourSettings project)"
  shows "timeSlots project =
           map (\<lambda>i. startMinutes project + 5 * int i)
             [0..<nat ((endHour (hourSettings project) - startHour (hourSettings project)) * 12 + 1)]
       \<and> int (length (timeSlots project)) =
           (endHour (hourSettings project) - startHour (hourSettings project)) * 12 + 1
       \<and> hd (timeSlots project) = startMinutes project
       \<and> last (timeSlots project) = endMinutes project"
proof -
  define sh eh where "sh = startHour (hourSettings project)" and "eh = endHour (hourSettings project)"
  define n where "n = nat ((eh - sh) * 12)"
  have sm: "startMinutes project = sh * 60" and em: "endMinutes project = eh * 60"
    by (simp_all add: startMinutes_def endMinutes_def sh_def eh_def)
  have lt': "sh < eh" using lt by (simp add: sh_def eh_def)
  have d: "(eh * 60 - sh * 60) div 5 = (eh - sh) * 12" by simp
  have cnt: "nat ((eh - sh) * 12 + 1) = Suc n" using lt' by (simp add: n_def)
  have eq: "timeSlots project = map (\<lambda>i. sh * 60 + 5 * int i) [0..<Suc n]"
    unfolding timeSlots_def sm em timeSlots_loop_eq [of "sh * 60" "eh * 60" "[]"] d
    using lt' cnt by simp
  have len: "int (length (timeSlots project)) = (eh - sh) * 12 + 1"
    unfolding eq using lt' by (simp add: n_def)
  have h: "hd (timeSlots project) = sh * 60"
    unfolding eq by (simp add: upt_conv_Cons del: upt_Suc)
  have l: "last (timeSlots project) = eh * 60"
    unfolding eq using lt' by (simp add: n_def)
  show ?thesis
    using eq len h l cnt unfolding sm em sh_def [symmetric] eh_def [symmetric] by simp
qed

theorem C4_hour_grid_witness:
  "startHour (hourSettings (demo_project Hour)) < endHour (hourSettings (demo_project Hour))
   \<and> length (timeSlots (demo_project Hour)) = 121
   \<and> hd (timeSlots (demo_project Hour)) = 480
   \<and> last (timeSlots (demo_project Hour)) = 1080"
proof -
  have h: "startHour (hourSettings (demo_project Hour)) < endHour (hourSettings (demo_project Hour))"
    by (simp add: hourSettings_def demo_project_def DEFAULT_HOUR_SCALE_SETTINGS_def)
  have v: "startMinutes (demo_project Hour) = 480" "endMinutes (demo_project Hour) = 1080"
     "endHour (hourSettings (demo_project Hour)) = 18" "startHour (hourSettings (demo_project Hour)) = 8"
    by (simp_all add: startMinutes_def endMinutes_def hourSettings_def demo_project_def
          DEFAULT_HOUR_SCALE_SETTINGS_def)
  show ?thesis using h C4_hour_grid [OF h, THEN conjunct2] unfolding v by simp
qed

section \<open>Basic facts about schedules\<close>

lemma scale_get_set_same [simp]: "scale_get (scale_set s sc v) sc = v"
  by (cases sc) simp_all

lemma scale_get_set_other [simp]: "sc' \<noteq> sc \<Longrightarrow> scale_get (scale_set s sc v) sc' = scale_get s sc'"
  by (cases sc; cases sc') simp_all

lemma currentSchedule_updateTask [simp]: "currentSchedule (updateTask task s) = s"
  by (simp add: currentSchedule_def updateTask_def)

lemma field_get_set [simp]:
  "field_get (field_set i f v) f = v"
  "f' \<noteq> f \<Longrightarrow> field_get (field_set i f v) f' = field_get i f'"
  by (cases f; cases f'; simp)+

lemma getScaleValue_TaskBar_update:
  "getScaleValue project (TaskBar_updateScaleValue project task f v) f' =
     (if f' = f then max (getMinValue project) (min (getMaxValue project) v)
      else getScaleValue project task f')"
  by (simp add: getScaleValue_def TaskBar_updateScaleValue_def Let_def)

lemma other_scales_TaskBar_update:
  "sc \<noteq> viewScale project \<Longrightarrow>
   scale_get (currentSchedule (TaskBar_updateScaleValue project task f v)) sc =
   scale_get (currentSchedule task) sc"
  by (simp add: TaskBar_updateScaleValue_def Let_def)

section \<open>Calendar rules: precedence of the working-day rules\<close>

lemma format_samples:
  "format_ymd 19723 = ''2024-01-01''"
  "format_ymd 19724 = ''2024-01-02''"
  "format_ymd 19727 = ''2024-01-05''"
  "format_ymd 19728 = ''2024-01-06''"
  "format_ymd 19729 = ''2024-01-07''"
  by code_simp+

text \<open>
  C2. \<open>isNonWorkday\<close> is decided by the first rule that matches, in this order: a date
  among the custom working days is working; else a date among the custom holidays is
  non-working; else a Saturday is non-working when Saturdays are skipped; else a Sunday
  is non-working when Sundays are skipped; else a national holiday is non-working when
  holidays are skipped; otherwise the date is working. A date in both custom lists is
  working.
\<close>

theorem C2_isNonWorkday_precedence:
  "(format_ymd d \<in> set (customWorkdays s) \<longrightarrow> \<not> isNonWorkday jp d s)
   \<and> (format_ymd d \<notin> set (customWorkdays s) \<and> format_ymd d \<in> set (customHolidays s)
        \<longrightarrow> isNonWorkday jp d s)
   \<and> (format_ymd d \<notin> set (customWorkdays s) \<and> format_ymd d \<notin> set (customHolidays s)
        \<and> skipSaturday s \<and> isSaturday d \<longrightarrow> isNonWorkday jp d s)
   \<and> (format_ymd d \<notin> set (customWorkdays s) \<and> format_ymd d \<notin> set (customHolidays s)
        \<and> \<not> (skipSaturday s \<and> isSaturday d) \<and> skipSunday s \<and> isSunday d
        \<longrightarrow> isNonWorkday jp d s)
   \<and> (format_ymd d \<notin> set (customWorkdays s) \<and> format_ymd d \<notin> set (customHolidays s)
        \<and> \<not> (skipSaturday s \<and> isSaturday d) \<and> \<not> (skipSunday s \<and> isSunday d)
        \<and> skipHolidays s \<and> isHoliday jp d \<longrightarrow> isNonWorkday jp d s)
   \<and> (format_ymd d \<notin> set (customWorkdays s) \<and> format_ymd d \<notin> set (customHolidays s)
        \<and> \<not> (skipSaturday s \<and> isSaturday d) \<and> \<not> (skipSunday s \<and> isSunday d)
        \<and> \<not> (skipHolidays s \<and> isHoliday jp d) \<longrightarrow> \<not> isNonWorkday jp d s)
   \<and> (format_ymd d \<in> set (customWorkdays s) \<and> format_ymd d \<in> set (customHolidays s)
        \<longrightarrow> \<not> isNonWorkday jp d s)"
  by (simp add: isNonWorkday_def Let_def)

theorem C2_isNonWorkday_precedence_witness:
  "\<not> isNonWorkday holidays_2024 19723
       (DEFAULT_WORKDAY_SETTINGS\<lparr>customHolidays := [''2024-01-01''], customWorkdays := [''2024-01-01'']\<rparr>)
   \<and> isNonWorkday holidays_2024 19727 (DEFAULT_WORKDAY_SETTINGS\<lparr>customHolidays := [''2024-01-05'']\<rparr>)
   \<and> isNonWorkday holidays_2024 19728 (DEFAULT_WORKDAY_SETTINGS\<lparr>skipSaturday := True\<rparr>)
   \<and> isNonWorkday holidays_2024 19729 DEFAULT_WORKDAY_SETTINGS
   \<and> isNonWorkday holidays_2024 19723 DEFAULT_WORKDAY_SETTINGS
   \<and> \<not> isNonWorkday holidays_2024 19724 DEFAULT_WORKDAY_SETTINGS"
proof -
  let ?both = "DEFAULT_WORKDAY_SETTINGS\<lparr>customHolidays := [''2024-01-01''], customWorkdays := [''2024-01-01'']\<rparr>"
  have 1: "\<not> isNonWorkday holidays_2024 19723 ?both"
    using C2_isNonWorkday_precedence [of 19723 ?both holidays_2024]
    by (simp add: format_samples DEFAULT_WORKDAY_SETTINGS_def)
  have 2: "isNonWorkday holidays_2024 19727 (DEFAULT_WORKDAY_SETTINGS\<lparr>customHolidays := [''2024-01-05'']\<rparr>)"
    using C2_isNonWorkday_precedence [of 19727 "DEFAULT_WORKDAY_SETTINGS\<lparr>customHolidays := [''2024-01-05'']\<rparr>" holidays_2024]
    by (simp add: format_samples DEFAULT_WORKDAY_SETTINGS_def)
  have 3: "isNonWorkday holidays_2024 19728 (DEFAULT_WORKDAY_SETTINGS\<lparr>skipSaturday := True\<rparr>)"
    using C2_isNonWorkday_precedence [of 19728 "DEFAULT_WORKDAY_SETTINGS\<lparr>skipSaturday := True\<rparr>" holidays_2024]
    by (simp add: format_samples DEFAULT_WORKDAY_SETTINGS_def isSaturday_def)
  have 4: "isNonWorkday holidays_2024 19729 DEFAULT_WORKDAY_SETTINGS"
    using C2_isNonWorkday_precedence [of 19729 DEFAULT_WORKDAY_SETTINGS holidays_2024]
    by (simp add: format_samples DEFAULT_WORKDAY_SETTINGS_def isSaturday_def isSunday_def)
  have 5: "isNonWorkday holidays_2024 19723 DEFAULT_WORKDAY_SETTINGS"
    using C2_isNonWorkday_precedence [of 19723 DEFAULT_WORKDAY_SETTINGS holidays_2024]
    by (simp add: format_samples DEFAULT_WORKDAY_SETTINGS_def isSaturday_def isSunday_def
          isHoliday_def holidays_2024_def)
  have 6: "\<not> isNonWorkday holidays_2024 19724 DEFAULT_WORKDAY_SETTINGS"
    using C2_isNonWorkday_precedence [of 19724 DEFAULT_WORKDAY_SETTINGS holidays_2024]
    by (simp add: format_samples DEFAULT_WORKDAY_SETTINGS_def isSaturday_def isSunday_def
          isHoliday_def holidays_2024_def)
  show ?thesis by (intro conjI 1 2 3 4 5 6)
qed

section \<open>Move drag\<close>

lemma getScaleValue_move:
  "getScaleValue project
     (updateTask task (scale_set (currentSchedule task) (viewScale project) \<lparr>start = a, endv = b\<rparr>)) f
   = (case f of FStart \<Rightarrow> a | FEnd \<Rightarrow> b)"
  by (cases f) (simp_all add: getScaleValue_def)

lemma demo_day_bounds:
  "getMinValue (demo_project Day) = 1" "getMaxValue (demo_project Day) = 7"
  by (simp_all add: getMinValue_def getMaxValue_def demo_project_def daySettings_def
        DEFAULT_DAY_SCALE_SETTINGS_def)

lemma demo_hour_bounds:
  "getMinValue (demo_project Hour) = 480" "getMaxValue (demo_project Hour) = 1080"
  "startMinutes (demo_project Hour) = 480" "endMinutes (demo_project Hour) = 1080"
  by (simp_all add: getMinValue_def getMaxValue_def demo_project_def hourSettings_def
        startMinutes_def endMinutes_def DEFAULT_HOUR_SCALE_SETTINGS_def)

lemma demo_viewScale [simp]: "viewScale (demo_project sc) = sc"
  by (simp add: demo_project_def)

text \<open>
  C7, as the program has it. Every pointer-move frame of a move drag sends one update
  that writes both fields of the active scale together: the new start is the candidate
  bounded to \<open>[minValue, maxValue - duration]\<close> (the lower bound winning), the new end
  is the new start plus \<open>duration\<close>, where \<open>duration = origin.end - origin.start\<close> is
  taken from the interval captured at pointer-down; the other three scales are
  untouched. When the captured interval has \<open>start \<le> end\<close>, so has the committed one.
  Example: day scale, interval 2 to 4, window of 7 days, candidate 6: the committed
  interval is 5 to 7.
\<close>

theorem C7_move_frame:
  assumes "0 < cellWidth"
  shows "\<exists>task'. handleMouseMove project task cellWidth Move origin x = Some task'
     \<and> getScaleValue project task' FStart =
         max (getMinValue project)
           (min (getMaxValue project - (endv origin - start origin)) (newValue project cellWidth x))
     \<and> getScaleValue project task' FEnd =
         getScaleValue project task' FStart + (endv origin - start origin)
     \<and> (\<forall>sc. sc \<noteq> viewScale project \<longrightarrow>
           scale_get (currentSchedule task') sc = scale_get (currentSchedule task) sc)
     \<and> (start origin \<le> endv origin \<longrightarrow>
           getScaleValue project task' FStart \<le> getScaleValue project task' FEnd)"
  by (simp add: handleMouseMove_def Let_def getScaleValue_move)

theorem C7_move_frame_witness:
  "(0::rat) < 32 \<and> start \<lparr>start = 2, endv = 4\<rparr> \<le> endv \<lparr>start = 2, endv = 4\<rparr>
   \<and> newValue (demo_project Day) 32 163 = 6
   \<and> (\<exists>task'. handleMouseMove (demo_project Day) day_2_4 32 Move \<lparr>start = 2, endv = 4\<rparr> 163 = Some task'
        \<and> getScaleValue (demo_project Day) task' FStart = 5
        \<and> getScaleValue (demo_project Day) task' FEnd = 7)"
proof -
  have nv: "newValue (demo_project Day) 32 163 = 6"
    by (simp add: newValue_def floor_eq_iff)
  show ?thesis
    using C7_move_frame [of 32 "demo_project Day" day_2_4 "\<lparr>start = 2, endv = 4\<rparr>" 163]
    by (auto simp add: nv demo_day_bounds)
qed

text \<open>
  A move drag keeps an inverted interval inverted. Typing 5 into the day-scale start box
  of a task on its default interval 1 to 3 leaves the interval 5 to 3; pointer-down on
  the bar captures it, and the frame at candidate 4 commits the interval 4 to 2.
\<close>

theorem C7_move_inverted_origin_counterexample:
  "dayInput_onChange (demo_project Day) (demo_task None) FStart (Some 5) = day_5_3
   \<and> dragStartValues (handleMouseDown (demo_project Day) (initial_drag day_5_3) Move)
       = Some \<lparr>start = 5, endv = 3\<rparr>
   \<and> newValue (demo_project Day) 32 97 = 4
   \<and> handleMouseMove (demo_project Day) day_5_3 32 Move \<lparr>start = 5, endv = 3\<rparr> 97
       = Some (demo_task (Some (DEFAULT_SCALE_SCHEDULE\<lparr>day := \<lparr>start = 4, endv = 2\<rparr>\<rparr>)))"
proof -
  have a: "dayInput_onChange (demo_project Day) (demo_task None) FStart (Some 5) = day_5_3"
    by (simp add: dayInput_onChange_def Let_def or_else_def demo_day_bounds day_5_3_def
          ChartCalendar_updateScaleValue_def updateTask_def currentSchedule_def demo_task_def
          DEFAULT_SCALE_SCHEDULE_def)
  have b: "dragStartValues (handleMouseDown (demo_project Day) (initial_drag day_5_3) Move)
       = Some \<lparr>start = 5, endv = 3\<rparr>"
    by (simp add: handleMouseDown_def initial_drag_def getScaleValue_def currentSchedule_def
          day_5_3_def demo_task_def)
  have nv: "newValue (demo_project Day) 32 97 = 4"
    by (simp add: newValue_def floor_eq_iff)
  have c: "handleMouseMove (demo_project Day) day_5_3 32 Move \<lparr>start = 5, endv = 3\<rparr> 97
       = Some (demo_task (Some (DEFAULT_SCALE_SCHEDULE\<lparr>day := \<lparr>start = 4, endv = 2\<rparr>\<rparr>)))"
    by (simp add: handleMouseMove_def Let_def nv demo_day_bounds updateTask_def
          currentSchedule_def day_5_3_def demo_task_def)
  show ?thesis using a b nv c by simp
qed

section \<open>Resize drags\<close>

lemma demo_task_None_hour:
  "getScaleValue (demo_project Hour) (demo_task None) FStart = 480"
  "getScaleValue (demo_project Hour) (demo_task None) FEnd = 540"
  by (simp_all add: getScaleValue_def currentSchedule_def demo_task_def DEFAULT_SCALE_SCHEDULE_def)

lemma skipped_frame_keeps_state:
  assumes "isDragging st" and "dragType st = Some ty" and "dragStartValues st = Some origin"
      and "handleMouseMove project (shown_task st) cellWidth ty origin x = None"
  shows "pointer_step project cellWidth st (MouseMove x) = st"
  using assms by simp

text \<open>
  C8, as the program has it. A resize-start frame sends an update exactly when
  \<open>candidate < current end\<close> and \<open>candidate \<ge> minValue\<close>; the committed start is the
  candidate bounded to \<open>[minValue, maxValue]\<close>, which is the candidate itself whenever
  \<open>candidate \<le> maxValue\<close>. A resize-end frame adds the unit of the scale (5 on the hour
  scale, 1 otherwise) and sends an update exactly when \<open>candidate + unit > current start\<close>
  and \<open>candidate + unit \<le> maxValue\<close>; the committed end is \<open>candidate + unit\<close> bounded
  below by \<open>minValue\<close>, which is \<open>candidate + unit\<close> itself whenever it is at least
  \<open>minValue\<close>. A committed frame leaves \<open>start < end\<close>, the other field and the other
  three scales as they were; any other frame sends nothing, and the state of the drag
  and the task stay as they are.
\<close>

theorem C8_resize_frames:
  assumes "0 < cellWidth"
  shows
  "(handleMouseMove project task cellWidth ResizeStart origin x \<noteq> None \<longleftrightarrow>
      newValue project cellWidth x < getScaleValue project task FEnd
      \<and> getMinValue project \<le> newValue project cellWidth x)
   \<and> (\<forall>task'. handleMouseMove project task cellWidth ResizeStart origin x = Some task' \<longrightarrow>
         getScaleValue project task' FStart =
           max (getMinValue project) (min (getMaxValue project) (newValue project cellWidth x))
         \<and> (newValue project cellWidth x \<le> getMaxValue project \<longrightarrow>
               getScaleValue project task' FStart = newValue project cellWidth x)
         \<and> getScaleValue project task' FStart < getScaleValue project task' FEnd
         \<and> getScaleValue project task' FEnd = getScaleValue project task FEnd
         \<and> (\<forall>sc. sc \<noteq> viewScale project \<longrightarrow>
               scale_get (currentSchedule task') sc = scale_get (currentSchedule task) sc))
   \<and> (handleMouseMove project task cellWidth ResizeEnd origin x \<noteq> None \<longleftrightarrow>
        newValue project cellWidth x + (if viewScale project = Hour then 5 else 1)
          > getScaleValue project task FStart
        \<and> newValue project cellWidth x + (if viewScale project = Hour then 5 else 1)
          \<le> getMaxValue project)
   \<and> (\<forall>task'. handleMouseMove project task cellWidth ResizeEnd origin x = Some task' \<longrightarrow>
         getScaleValue project task' FEnd =
           max (getMinValue project)
             (newValue project cellWidth x + (if viewScale project = Hour then 5 else 1))
         \<and> (getMinValue project
               \<le> newValue project cellWidth x + (if viewScale project = Hour then 5 else 1) \<longrightarrow>
               getScaleValue project task' FEnd =
                 newValue project cellWidth x + (if viewScale project = Hour then 5 else 1))
         \<and> getScaleValue project task' FStart < getScaleValue project task' FEnd
         \<and> getScaleValue project task' FStart = getScaleValue project task FStart
         \<and> (\<forall>sc. sc \<noteq> viewScale project \<longrightarrow>
               scale_get (currentSchedule task') sc = scale_get (currentSchedule task) sc))"
proof -
  have rs: "handleMouseMove project task cellWidth ResizeStart origin x =
      (if newValue project cellWidth x < getScaleValue project task FEnd
          \<and> getMinValue project \<le> newValue project cellWidth x
       then Some (TaskBar_updateScaleValue project task FStart (newValue project cellWidth x))
       else None)"
    by (simp add: handleMouseMove_def Let_def)
  have re: "handleMouseMove project task cellWidth ResizeEnd origin x =
      (if newValue project cellWidth x + (if viewScale project = Hour then 5 else 1)
            > getScaleValue project task FStart
          \<and> newValue project cellWidth x + (if viewScale project = Hour then 5 else 1)
            \<le> getMaxValue project
       then Some (TaskBar_updateScaleValue project task FEnd
                    (newValue project cellWidth x + (if viewScale project = Hour then 5 else 1)))
       else None)"
    by (simp add: handleMouseMove_def Let_def)
  have 1: "handleMouseMove project task cellWidth ResizeStart origin x \<noteq> None \<longleftrightarrow>
      newValue project cellWidth x < getScaleValue project task FEnd
      \<and> getMinValue project \<le> newValue project cellWidth x"
    unfolding rs by simp
  have 2: "\<forall>task'. handleMouseMove project task cellWidth ResizeStart origin x = Some task' \<longrightarrow>
         getScaleValue project task' FStart =
           max (getMinValue project) (min (getMaxValue project) (newValue project cellWidth x))
         \<and> (newValue project cellWidth x \<le> getMaxValue project \<longrightarrow>
               getScaleValue project task' FStart = newValue project cellWidth x)
         \<and> getScaleValue project task' FStart < getScaleValue project task' FEnd
         \<and> getScaleValue project task' FEnd = getScaleValue project task FEnd
         \<and> (\<forall>sc. sc \<noteq> viewScale project \<longrightarrow>
               scale_get (currentSchedule task') sc = scale_get (currentSchedule task) sc)"
    unfolding rs
    by (auto simp add: getScaleValue_TaskBar_update other_scales_TaskBar_update split: if_splits)
  have 3: "handleMouseMove project task cellWidth ResizeEnd origin x \<noteq> None \<longleftrightarrow>
        newValue project cellWidth x + (if viewScale project = Hour then 5 else 1)
          > getScaleValue project task FStart
        \<and> newValue project cellWidth x + (if viewScale project = Hour then 5 else 1)
          \<le> getMaxValue project"
    unfolding re by simp
  have 4: "\<forall>task'. handleMouseMove project task cellWidth ResizeEnd origin x = Some task' \<longrightarrow>
         getScaleValue project task' FEnd =
           max (getMinValue project)
             (newValue project cellWidth x + (if viewScale project = Hour then 5 else 1))
         \<and> (getMinValue project
               \<le> newValue project cellWidth x + (if viewScale project = Hour then 5 else 1) \<longrightarrow>
               getScaleValue project task' FEnd =
                 newValue project cellWidth x + (if viewScale project = Hour then 5 else 1))
         \<and> getScaleValue project task' FStart < getScaleValue project task' FEnd
         \<and> getScaleValue project task' FStart = getScaleValue project task FStart
         \<and> (\<forall>sc. sc \<noteq> viewScale project \<longrightarrow>
               scale_get (currentSchedule task') sc = scale_get (currentSchedule task) sc)"
    unfolding re
    by (auto simp add: getScaleValue_TaskBar_update other_scales_TaskBar_update split: if_splits)
  show ?thesis by (intro conjI 1 2 3 4)
qed

theorem C8_resize_frames_witness:
  "(0::rat) < 24
   \<and> (\<exists>task'. handleMouseMove (demo_project Hour) (demo_task None) 24 ResizeStart
                  \<lparr>start = 480, endv = 540\<rparr> 98 = Some task'
        \<and> getScaleValue (demo_project Hour) task' FStart = 500
        \<and> getScaleValue (demo_project Hour) task' FEnd = 540)
   \<and> handleMouseMove (demo_project Hour) (demo_task None) 24 ResizeStart
          \<lparr>start = 480, endv = 540\<rparr> 312 = None
   \<and> (\<exists>task'. handleMouseMove (demo_project Hour) (demo_task None) 24 ResizeEnd
                  \<lparr>start = 480, endv = 540\<rparr> 485 = Some task'
        \<and> getScaleValue (demo_project Hour) task' FStart = 480
        \<and> getScaleValue (demo_project Hour) task' FEnd = 585)
   \<and> handleMouseMove (demo_project Hour) (demo_task None) 24 ResizeEnd
          \<lparr>start = 480, endv = 540\<rparr> (- 48) = None"
proof -
  have nv: "newValue (demo_project Hour) 24 98 = 500" "newValue (demo_project Hour) 24 312 = 545"
     "newValue (demo_project Hour) 24 485 = 580" "newValue (demo_project Hour) 24 (- 48) = 470"
    by (simp_all add: newValue_def demo_hour_bounds floor_eq_iff)
  have a: "\<exists>task'. handleMouseMove (demo_project Hour) (demo_task None) 24 ResizeStart
                  \<lparr>start = 480, endv = 540\<rparr> 98 = Some task'
        \<and> getScaleValue (demo_project Hour) task' FStart = 500
        \<and> getScaleValue (demo_project Hour) task' FEnd = 540"
    using C8_resize_frames [of 24 "demo_project Hour" "demo_task None" "\<lparr>start = 480, endv = 540\<rparr>" 98]
    by (auto simp add: nv demo_task_None_hour demo_hour_bounds)
  have b: "handleMouseMove (demo_project Hour) (demo_task None) 24 ResizeStart
          \<lparr>start = 480, endv = 540\<rparr> 312 = None"
    using C8_resize_frames [of 24 "demo_project Hour" "demo_task None" "\<lparr>start = 480, endv = 540\<rparr>" 312]
    by (simp add: nv demo_task_None_hour demo_hour_bounds)
  have c: "\<exists>task'. handleMouseMove (demo_project Hour) (demo_task None) 24 ResizeEnd
                  \<lparr>start = 480, endv = 540\<rparr> 485 = Some task'
        \<and> getScaleValue (demo_project Hour) task' FStart = 480
        \<and> getScaleValue (demo_project Hour) task' FEnd = 585"
    using C8_resize_frames [of 24 "demo_project Hour" "demo_task None" "\<lparr>start = 480, endv = 540\<rparr>" 485]
    by (auto simp add: nv demo_task_None_hour demo_hour_bounds)
  have d: "handleMouseMove (demo_project Hour) (demo_task None) 24 ResizeEnd
          \<lparr>start = 480, endv = 540\<rparr> (- 48) = None"
    using C8_resize_frames [of 24 "demo_project Hour" "demo_task None" "\<lparr>start = 480, endv = 540\<rparr>" "- 48"]
    by (simp add: nv demo_task_None_hour demo_hour_bounds)
  show ?thesis using a b c d by simp
qed

lemma hour_1080_1140_from_add:
  "map_option scaleSchedule
     (handleAddTask (demo_project Hour)
        [demo_task (Some (DEFAULT_SCALE_SCHEDULE\<lparr>hour := \<lparr>start = 1020, endv = 1080\<rparr>\<rparr>))]
        ''paint'')
   = Some (scaleSchedule hour_1080_1140)"
  by code_simp

text \<open>
  The committed start is not always the candidate: a task made by \<open>handleAddTask\<close>
  after one that ends at 18:00 has the hour interval 1080 to 1140, beyond the window
  8 to 18. A resize-start frame at candidate 1100 is accepted (1100 < 1140 and
  1100 \<ge> 480) and commits 1080.
\<close>

theorem C8_resize_start_counterexample:
  "newValue (demo_project Hour) 24 2977 = 1100
   \<and> 1100 < getScaleValue (demo_project Hour) hour_1080_1140 FEnd
   \<and> getMinValue (demo_project Hour) \<le> 1100
   \<and> handleMouseMove (demo_project Hour) hour_1080_1140 24 ResizeStart
         \<lparr>start = 1080, endv = 1140\<rparr> 2977
       = Some (demo_task (Some (DEFAULT_SCALE_SCHEDULE\<lparr>hour := \<lparr>start = 1080, endv = 1140\<rparr>\<rparr>)))"
proof -
  have nv: "newValue (demo_project Hour) 24 2977 = 1100"
    by (simp add: newValue_def demo_hour_bounds floor_eq_iff)
  have e: "getScaleValue (demo_project Hour) hour_1080_1140 FEnd = 1140"
    by (simp add: getScaleValue_def currentSchedule_def hour_1080_1140_def demo_task_def
          DEFAULT_SCALE_SCHEDULE_def)
  have h1: "handleMouseMove (demo_project Hour) hour_1080_1140 24 ResizeStart
         \<lparr>start = 1080, endv = 1140\<rparr> 2977
       = Some (TaskBar_updateScaleValue (demo_project Hour) hour_1080_1140 FStart 1100)"
    by (simp add: handleMouseMove_def Let_def nv e demo_hour_bounds)
  have h2: "TaskBar_updateScaleValue (demo_project Hour) hour_1080_1140 FStart 1100
       = demo_task (Some (DEFAULT_SCALE_SCHEDULE\<lparr>hour := \<lparr>start = 1080, endv = 1140\<rparr>\<rparr>))"
    by (simp add: TaskBar_updateScaleValue_def Let_def demo_hour_bounds
          updateTask_def currentSchedule_def hour_1080_1140_def demo_task_def)
  show ?thesis using nv e h1 h2 by (simp add: demo_hour_bounds)
qed

section \<open>Bar geometry in the chart views\<close>

lemma ChartCalendar_cellWidth_pos: "0 < ChartCalendar_cellWidth project"
  by (cases "viewScale project") (simp_all add: ChartCalendar_cellWidth_def)

lemma bar_left_getBarPosition:
  "bar_left (getBarPosition project task cellWidth) =
     max 0 (fst (cell_span project task)) * cellWidth"
  by (simp add: getBarPosition_def case_prod_beta)

lemma hour_600_660_values:
  "getScaleValue (demo_project Hour) hour_600_660 FStart = 600"
  "getScaleValue (demo_project Hour) hour_600_660 FEnd = 660"
  by (simp_all add: getScaleValue_def currentSchedule_def hour_600_660_def demo_task_def)

lemma day_2_4_values:
  "getScaleValue (demo_project Day) day_2_4 FStart = 2"
  "getScaleValue (demo_project Day) day_2_4 FEnd = 4"
  by (simp_all add: getScaleValue_def currentSchedule_def day_2_4_def demo_task_def)



text \<open>
  The chart calendar also defines a \<open>getTaskBarStyle\<close> of its own, which it never
  calls. It has no floor at 0 on the offset, and gives the task bar's geometry for
  every interval that starts inside the window.
\<close>

lemma ChartCalendar_getTaskBarStyle_in_window:
  assumes "getMinValue project \<le> getScaleValue project task FStart"
  shows "ChartCalendar_getTaskBarStyle project task cellWidth = getBarPosition project task cellWidth"
proof -
  have "0 \<le> fst (cell_span project task)"
    using assms
    by (cases "viewScale project") (simp_all add: cell_span_def Let_def getMinValue_def)
  then show ?thesis
    by (simp add: ChartCalendar_getTaskBarStyle_def getBarPosition_def case_prod_beta max_def)
qed

section \<open>From a bar's offset back to its start\<close>

lemma bitlen_le: "n < 2 ^ k \<Longrightarrow> bitlen n \<le> int k"
proof (induction k arbitrary: n)
  case 0
  then show ?case by (simp add: bitlen.simps)
next
  case (Suc k)
  show ?case
  proof (cases "n \<le> 0")
    case True
    then show ?thesis by (simp add: bitlen.simps)
  next
    case False
    have "n div 2 < 2 ^ k" using Suc.prems by simp
    then have "bitlen (n div 2) \<le> int k" by (rule Suc.IH)
    then show ?thesis using False by (subst bitlen.simps) simp
  qed
qed

lemma bitlen_1: "bitlen 1 = 1"
  by (simp add: bitlen.simps)

lemma round_half_even_of_int: "round_half_even (of_int k) = k"
  by (simp add: round_half_even_def)

lemma f64_round_of_int:
  assumes "0 \<le> n" and "n < 2 ^ 53"
  shows "f64_round (of_int n) = of_int n"
proof (cases "n = 0")
  case True
  then show ?thesis by (simp add: f64_round_def)
next
  case False
  then have pos: "0 < n" using assms(1) by simp
  define t where "t = bitlen n - bitlen 1"
  define e where "e = (if pow2 t \<le> of_int n then t else t - 1)"
  define j where "j = nat (52 - e)"
  have "bitlen n \<le> 53" using bitlen_le [OF assms(2)] by simp
  then have "t \<le> 52" by (simp add: t_def bitlen_1)
  then have e52: "e \<le> 52" by (simp add: e_def)
  have ulp: "pow2 (e - 52) = 1 / 2 ^ j"
  proof (cases "e = 52")
    case True
    then show ?thesis by (simp add: pow2_def j_def)
  next
    case False
    then have "e - 52 < 0" using e52 by simp
    then show ?thesis by (simp add: pow2_def j_def)
  qed
  have scaled: "(of_int n :: rat) / (1 / 2 ^ j) = of_int (n * 2 ^ j)"
    by simp
  have "f64_pos (of_int n) = of_int (round_half_even (of_int n / pow2 (e - 52))) * pow2 (e - 52)"
    by (simp add: f64_pos_def Let_def t_def e_def)
  also have "\<dots> = of_int (n * 2 ^ j) * (1 / 2 ^ j)"
    unfolding ulp scaled round_half_even_of_int ..
  also have "\<dots> = of_int n" by simp
  finally show ?thesis using pos by (simp add: f64_round_def)
qed

lemma f64_round_product:
  assumes "0 \<le> k" and "0 < c" and "k * c < 2 ^ 53"
  shows "f64_round (of_int k) = of_int k"
    and "f64_round (of_int k * of_int c) = of_int (k * c)"
    and "\<lfloor>f64_round (of_int (k * c) / of_int c)\<rfloor> = k"
proof -
  have "k \<le> k * c" using assms(1,2) by (simp add: mult_le_cancel_left1)
  then have k: "k < 2 ^ 53" using assms(3) by simp
  show 1: "f64_round (of_int k) = of_int k"
    using assms(1) k by (rule f64_round_of_int)
  have "0 \<le> k * c" using assms(1,2) by simp
  then have "f64_round (of_int (k * c)) = of_int (k * c)"
    using assms(3) by (rule f64_round_of_int)
  then show "f64_round (of_int k * of_int c) = of_int (k * c)" by simp
  have "(of_int (k * c) :: rat) / of_int c = of_int k" using assms(2) by simp
  then show "\<lfloor>f64_round (of_int (k * c) / of_int c)\<rfloor> = k" using 1 by simp
qed

lemma bar_left_getBarPosition_f64:
  "bar_left (getBarPosition_f64 project task cellWidth) =
     f64_round (max 0 (fst (cell_span_f64 project task)) * cellWidth)"
  by (simp add: getBarPosition_f64_def case_prod_beta)

text \<open>
  C6, as the program has it. Round trip, in double precision, for a positive integer
  cell width \<open>c\<close> (the chart calendar passes 24, 32, 20 or 14): when the interval's start
  is at least the lower bound of the scale (\<open>startMinutes\<close> on the hour scale, 1
  otherwise), on the hour scale a multiple of 5, and \<open>(start - lower bound) * c\<close> is
  below \<open>2^53\<close>, the cell index \<open>floor(offset / c)\<close> of the bar's offset, turned into a
  value (\<open>startMinutes + index*5\<close> on the hour scale, \<open>index + 1\<close> otherwise), is
  exactly the interval's start; the offset is then the exact product.
\<close>

theorem C6_round_trip_integer_width:
  assumes c: "0 < c"
      and lo: "getMinValue project \<le> getScaleValue project task FStart"
      and grid: "viewScale project = Hour \<longrightarrow> 5 dvd getScaleValue project task FStart"
      and bound: "(getScaleValue project task FStart - getMinValue project) * c < 2 ^ 53"
  shows "newValue_f64 project (of_int c)
           (bar_left (getBarPosition_f64 project task (of_int c)))
           = getScaleValue project task FStart
       \<and> bar_left (getBarPosition_f64 project task (of_int c))
           = bar_left (getBarPosition project task (of_int c))"
proof (cases "viewScale project = Hour")
  case True
  define s where "s = getScaleValue project task FStart"
  define d where "d = s - startMinutes project"
  have d0: "0 \<le> d" using lo True by (simp add: d_def s_def getMinValue_def)
  have dc: "d * c < 2 ^ 53" using bound True by (simp add: d_def s_def getMinValue_def)
  have "5 dvd s" using grid True by (simp add: s_def)
  moreover have "5 dvd startMinutes project" by (simp add: startMinutes_def)
  ultimately have "5 dvd d" unfolding d_def by (rule dvd_diff)
  then obtain k where k: "d = 5 * k" by (auto simp: dvd_def)
  have k0: "0 \<le> k" using d0 k by simp
  have "k * c \<le> d * c" using k k0 c by simp
  then have kc: "k * c < 2 ^ 53" using dc by simp
  have d1: "d * 1 < 2 ^ 53"
    using dc d0 c mult_left_mono [of 1 c d] by simp
  have rd: "f64_round (of_int d) = of_int d"
    using f64_round_of_int [OF d0] d1 by simp
  have sub: "of_int s - of_int (startMinutes project) = (of_int d :: rat)"
    by (simp add: d_def)
  have quo: "(of_int d :: rat) / 5 = of_int k" using k by simp
  have off: "fst (cell_span_f64 project task) = of_int k"
    using True by (simp add: cell_span_f64_def Let_def s_def [symmetric] sub rd quo
        f64_round_product(1) [OF k0 c kc])
  have "fst (cell_span project task) = of_int d / 5"
    using True by (simp add: cell_span_def Let_def s_def d_def)
  then have off': "fst (cell_span project task) = of_int k"
    unfolding quo .
  have left: "bar_left (getBarPosition_f64 project task (of_int c)) = of_int (k * c)"
    unfolding bar_left_getBarPosition_f64 off
    using k0 f64_round_product(2) [OF k0 c kc] by simp
  have left': "bar_left (getBarPosition project task (of_int c)) = of_int (k * c)"
    unfolding bar_left_getBarPosition off' using k0 by simp
  have "newValue_f64 project (of_int c) (of_int (k * c)) = startMinutes project + k * 5"
    using True f64_round_product(3) [OF k0 c kc] by (simp add: newValue_f64_def)
  then show ?thesis
    unfolding left left' s_def [symmetric] using k by (simp add: d_def)
next
  case False
  define s where "s = getScaleValue project task FStart"
  define k where "k = s - 1"
  have k0: "0 \<le> k" using lo False by (simp add: k_def s_def getMinValue_def)
  have kc: "k * c < 2 ^ 53" using bound False by (simp add: k_def s_def getMinValue_def)
  have sub: "of_int s - 1 = (of_int k :: rat)" by (simp add: k_def)
  have off: "fst (cell_span_f64 project task) = of_int k"
    using False
    by (cases "viewScale project")
       (simp_all add: cell_span_f64_def Let_def s_def [symmetric] sub
          f64_round_product(1) [OF k0 c kc])
  have off': "fst (cell_span project task) = of_int k"
    using False
    by (cases "viewScale project") (simp_all add: cell_span_def Let_def s_def k_def)
  have left: "bar_left (getBarPosition_f64 project task (of_int c)) = of_int (k * c)"
    unfolding bar_left_getBarPosition_f64 off
    using k0 f64_round_product(2) [OF k0 c kc] by simp
  have left': "bar_left (getBarPosition project task (of_int c)) = of_int (k * c)"
    unfolding bar_left_getBarPosition off' using k0 by simp
  have "newValue_f64 project (of_int c) (of_int (k * c)) = k + 1"
    using False f64_round_product(3) [OF k0 c kc] by (simp add: newValue_f64_def)
  then show ?thesis
    unfolding left left' s_def [symmetric] by (simp add: k_def)
qed

theorem C6_round_trip_integer_width_witness:
  "(0::int) < 24
   \<and> getMinValue (demo_project Hour) \<le> getScaleValue (demo_project Hour) hour_600_660 FStart
   \<and> 5 dvd getScaleValue (demo_project Hour) hour_600_660 FStart
   \<and> (getScaleValue (demo_project Hour) hour_600_660 FStart - getMinValue (demo_project Hour)) * 24
       < (2::int) ^ 53
   \<and> bar_left (getBarPosition_f64 (demo_project Hour) hour_600_660 24) = 576
   \<and> newValue_f64 (demo_project Hour) 24 576 = 600
   \<and> bar_left (getBarPosition_f64 (demo_project Day) day_2_4 32) = 32
   \<and> newValue_f64 (demo_project Day) 32 32 = 2"
proof -
  have l1: "bar_left (getBarPosition (demo_project Hour) hour_600_660 24) = 576"
    by (simp add: getBarPosition_def cell_span_def Let_def hour_600_660_values demo_hour_bounds)
  have l2: "bar_left (getBarPosition (demo_project Day) day_2_4 32) = 32"
    by (simp add: getBarPosition_def cell_span_def Let_def day_2_4_values)
  have h: "(0::int) < 24"
      "getMinValue (demo_project Hour) \<le> getScaleValue (demo_project Hour) hour_600_660 FStart"
      "viewScale (demo_project Hour) = Hour \<longrightarrow>
         5 dvd getScaleValue (demo_project Hour) hour_600_660 FStart"
      "(getScaleValue (demo_project Hour) hour_600_660 FStart - getMinValue (demo_project Hour)) * 24
         < (2::int) ^ 53"
    by (simp_all add: hour_600_660_values demo_hour_bounds)
  have d: "(0::int) < 32"
      "getMinValue (demo_project Day) \<le> getScaleValue (demo_project Day) day_2_4 FStart"
      "viewScale (demo_project Day) = Hour \<longrightarrow>
         5 dvd getScaleValue (demo_project Day) day_2_4 FStart"
      "(getScaleValue (demo_project Day) day_2_4 FStart - getMinValue (demo_project Day)) * 32
         < (2::int) ^ 53"
    by (simp_all add: day_2_4_values demo_day_bounds)
  note r1 = C6_round_trip_integer_width [OF h]
  note r2 = C6_round_trip_integer_width [OF d]
  have a1: "bar_left (getBarPosition_f64 (demo_project Hour) hour_600_660 24) = 576"
    using r1 [THEN conjunct2] l1 by simp
  have a2: "bar_left (getBarPosition_f64 (demo_project Day) day_2_4 32) = 32"
    using r2 [THEN conjunct2] l2 by simp
  have b1: "newValue_f64 (demo_project Hour) 24 576 = 600"
    using r1 [THEN conjunct1] a1 by (simp add: hour_600_660_values)
  have b2: "newValue_f64 (demo_project Day) 32 32 = 2"
    using r2 [THEN conjunct1] a2 by (simp add: day_2_4_values)
  show ?thesis using h(1,2,4) a1 a2 b1 b2 by (simp add: hour_600_660_values)
qed

text \<open>
  With a cell width that is not an integer the round trip can fail. The double nearest
  to 26.4 is \<open>7430939385161318 / 2^48\<close>. On the hour scale with the window 8 to 18 and
  a start of 495 the offset is three cells, \<open>3 * 26.4\<close>, which rounds to
  79.19999999999999; divided by the cell width it gives 2.9999999999999996, cell index
  2 and the value 490.
\<close>

theorem C6_round_trip_width_26_4_counterexample:
  "f64_round (132 / 5) = 7430939385161318 / 281474976710656
   \<and> 0 < f64_round (132 / 5)
   \<and> getScaleValue (demo_project Hour) hour_495_555 FStart = 495
   \<and> getMinValue (demo_project Hour) \<le> 495 \<and> 495 \<le> getMaxValue (demo_project Hour)
   \<and> bar_left (getBarPosition_f64 (demo_project Hour) hour_495_555 (f64_round (132 / 5)))
       = 1393301134717747 / 17592186044416
   \<and> newValue_f64 (demo_project Hour) (f64_round (132 / 5))
        (bar_left (getBarPosition_f64 (demo_project Hour) hour_495_555 (f64_round (132 / 5))))
       = 490"
  by code_simp

section \<open>The schedule of an added task\<close>

text \<open>
  On the hour scale with a task before it, the new task starts at the last task's hour
  end \<open>e\<close> (when that is not 0) and ends at \<open>e + 60\<close>, with the three other scales at
  their defaults; the end is not bounded to the window. On another scale, or with no
  task yet, the new task has no schedule.
\<close>

lemma trim_paint: "trim ''paint'' = ''paint''"
  by (simp add: trim_def is_space_def)

lemma handleAddTask_hour_schedule:
  assumes "trim newTaskName \<noteq> []" and "viewScale project = Hour" and "tasks \<noteq> []"
      and "endv (hour (currentSchedule (last tasks))) \<noteq> 0"
  shows "\<exists>t. handleAddTask project tasks newTaskName = Some t
           \<and> scaleSchedule t =
               Some (DEFAULT_SCALE_SCHEDULE
                       \<lparr>hour := \<lparr>start = endv (hour (currentSchedule (last tasks))),
                                  endv = endv (hour (currentSchedule (last tasks))) + 60\<rparr>\<rparr>)"
  using assms by (simp add: handleAddTask_def Let_def or_else_def)

lemma handleAddTask_no_schedule:
  assumes "trim newTaskName \<noteq> []" and "viewScale project \<noteq> Hour \<or> tasks = []"
  shows "\<exists>t. handleAddTask project tasks newTaskName = Some t \<and> scaleSchedule t = None"
  using assms by (auto simp add: handleAddTask_def Let_def)

lemma handleAddTask_beyond_window:
  "map_option scaleSchedule (handleAddTask (demo_project Hour) [hour_1080_1140] ''paint'')
     = Some (Some (DEFAULT_SCALE_SCHEDULE\<lparr>hour := \<lparr>start = 1140, endv = 1200\<rparr>\<rparr>))
   \<and> endMinutes (demo_project Hour) = 1080"
  by (simp add: handleAddTask_def Let_def trim_paint or_else_def currentSchedule_def
        hour_1080_1140_def demo_task_def demo_hour_bounds)

lemma midnight_task_from_fields:
  "hoursInput_onChange window_0_18
     (hoursInput_onChange window_0_18 (demo_task None) FStart (Some 0)) FEnd (Some 0)
   = midnight_task"
  by code_simp

text \<open>
  C10 at a last task that ends at minute 0. In a window that starts at hour 0 the hour
  interval 0 to 0 is a value of the time fields; the last task's hour end is then 0,
  and the added task gets the interval 540 to 600, not 0 to 60.
\<close>

theorem C10_last_end_zero:
  "getScaleValue window_0_18 midnight_task FEnd = 0
   \<and> map_option scaleSchedule (handleAddTask window_0_18 [midnight_task] ''paint'')
       = Some (Some (DEFAULT_SCALE_SCHEDULE\<lparr>hour := \<lparr>start = 540, endv = 600\<rparr>\<rparr>))"
proof -
  have v: "viewScale window_0_18 = Hour"
    by (simp add: window_0_18_def)
  have e: "endv (hour (currentSchedule midnight_task)) = 0"
    by (simp add: currentSchedule_def midnight_task_def demo_task_def)
  have g: "getScaleValue window_0_18 midnight_task FEnd = 0"
    by (simp add: getScaleValue_def v e)
  have h: "map_option scaleSchedule (handleAddTask window_0_18 [midnight_task] ''paint'')
       = Some (Some (DEFAULT_SCALE_SCHEDULE\<lparr>hour := \<lparr>start = 540, endv = 600\<rparr>\<rparr>))"
    by (simp add: handleAddTask_def Let_def trim_paint v e or_else_def DEFAULT_SCALE_SCHEDULE_def)
  show ?thesis using g h by simp
qed

section \<open>Order of start and end under edits\<close>

lemma ordered_iff: "ordered s \<longleftrightarrow> (\<forall>sc. start (scale_get s sc) \<le> endv (scale_get s sc))"
proof
  assume "ordered s"
  then show "\<forall>sc. start (scale_get s sc) \<le> endv (scale_get s sc)"
    by (auto simp: ordered_def intro: ViewScale.induct)
next
  assume a: "\<forall>sc. start (scale_get s sc) \<le> endv (scale_get s sc)"
  show "ordered s"
    using a [rule_format, of Hour] a [rule_format, of Day] a [rule_format, of Week]
      a [rule_format, of Month]
    by (simp add: ordered_def)
qed

lemma ordered_DEFAULT: "ordered DEFAULT_SCALE_SCHEDULE"
  by (simp add: ordered_def DEFAULT_SCALE_SCHEDULE_def)

lemma ordered_scale_set:
  "ordered s \<Longrightarrow> start v \<le> endv v \<Longrightarrow> ordered (scale_set s sc v)"
  by (cases sc) (simp_all add: ordered_def)

lemma ordered_update:
  assumes "ordered (currentSchedule task)"
      and "\<forall>sc. sc \<noteq> viewScale project \<longrightarrow>
             scale_get (currentSchedule task') sc = scale_get (currentSchedule task) sc"
      and "getScaleValue project task' FStart \<le> getScaleValue project task' FEnd"
  shows "ordered (currentSchedule task')"
  unfolding ordered_iff
proof
  fix sc
  show "start (scale_get (currentSchedule task') sc) \<le> endv (scale_get (currentSchedule task') sc)"
  proof (cases "sc = viewScale project")
    case True
    then show ?thesis using assms(3) by (simp add: getScaleValue_def)
  next
    case False
    then show ?thesis using assms(1,2) by (simp add: ordered_iff)
  qed
qed

lemma handleMouseMove_other_scales:
  assumes "handleMouseMove project task cellWidth ty origin x = Some task'"
      and "sc \<noteq> viewScale project"
  shows "scale_get (currentSchedule task') sc = scale_get (currentSchedule task) sc"
  using assms
  by (cases ty)
     (auto simp add: handleMouseMove_def Let_def other_scales_TaskBar_update split: if_splits)

lemma handleMouseMove_ordered:
  assumes ord: "ordered (currentSchedule task)"
      and org: "ty = Move \<longrightarrow> start origin \<le> endv origin"
      and res: "handleMouseMove project task cellWidth ty origin x = Some task'"
  shows "ordered (currentSchedule task')"
proof -
  have "getScaleValue project task' FStart \<le> getScaleValue project task' FEnd"
  proof (cases ty)
    case Move
    then show ?thesis
      using res org by (auto simp add: handleMouseMove_def Let_def getScaleValue_move)
  next
    case ResizeStart
    then show ?thesis
      using res
      by (auto simp add: handleMouseMove_def Let_def getScaleValue_TaskBar_update
            split: if_splits)
  next
    case ResizeEnd
    then show ?thesis
      using res
      by (auto simp add: handleMouseMove_def Let_def getScaleValue_TaskBar_update
            split: if_splits)
  qed
  then show ?thesis
    using ord handleMouseMove_other_scales [OF res] ordered_update by blast
qed

lemma pointer_step_ordered:
  assumes "drag_ordered st"
  shows "drag_ordered (pointer_step project cellWidth st ev)"
proof (cases ev)
  case (MouseDown ty)
  then show ?thesis
    using assms
    by (simp add: drag_ordered_def handleMouseDown_def getScaleValue_def ordered_iff)
next
  case (MouseMove x)
  then show ?thesis
    using assms handleMouseMove_ordered [of "shown_task st" _ _ project cellWidth x]
    by (auto simp add: drag_ordered_def split: option.splits bool.splits)
next
  case MouseUp
  then show ?thesis
    using assms
    by (auto simp add: drag_ordered_def handleMouseUp_def split: option.splits bool.splits)
qed

lemma run_pointer_ordered:
  "drag_ordered st \<Longrightarrow> drag_ordered (run_pointer project cellWidth st evs)"
  unfolding run_pointer_def
  by (induction evs arbitrary: st) (simp_all add: pointer_step_ordered)


lemma other_scales_ChartCalendar_update:
  "sc \<noteq> viewScale project \<Longrightarrow>
   scale_get (currentSchedule (ChartCalendar_updateScaleValue project task f v)) sc =
   scale_get (currentSchedule task) sc"
  by (simp add: ChartCalendar_updateScaleValue_def Let_def)

lemma getScaleValue_ChartCalendar_update:
  "getScaleValue project (ChartCalendar_updateScaleValue project task f v) f' =
     (if f' = f then v else getScaleValue project task f')"
  by (simp add: getScaleValue_def ChartCalendar_updateScaleValue_def Let_def)

lemma editor_step_other_scales:
  assumes "sc \<noteq> viewScale project"
  shows "scale_get (currentSchedule (shown_task (editor_step project cellWidth st ev))) sc =
         scale_get (currentSchedule (shown_task st)) sc"
proof (cases ev)
  case (Pointer e)
  show ?thesis
  proof (cases e)
    case (MouseDown ty)
    then show ?thesis using Pointer by (simp add: handleMouseDown_def)
  next
    case (MouseMove x)
    then show ?thesis
      using Pointer assms handleMouseMove_other_scales [of project "shown_task st" cellWidth _ _ x _ sc]
      by (auto split: option.splits bool.splits)
  next
    case MouseUp
    then show ?thesis using Pointer by (auto simp add: handleMouseUp_def split: option.splits bool.splits)
  qed
next
  case (HoursInput f p)
  then show ?thesis
    using assms
    using other_scales_ChartCalendar_update [of sc project]
    by (simp add: hoursInput_onChange_def Let_def case_prod_beta)
next
  case (MinutesInput f p)
  then show ?thesis
    using assms
    using other_scales_ChartCalendar_update [of sc project]
    by (simp add: minutesInput_onChange_def Let_def case_prod_beta)
next
  case (DayInput f p)
  then show ?thesis
    using assms
    using other_scales_ChartCalendar_update [of sc project]
    by (simp add: dayInput_onChange_def Let_def)
qed

lemma run_editor_other_scales:
  "sc \<noteq> viewScale project \<Longrightarrow>
   scale_get (currentSchedule (shown_task (run_editor project cellWidth st evs))) sc =
   scale_get (currentSchedule (shown_task st)) sc"
  unfolding run_editor_def
  by (induction evs arbitrary: st) (simp_all add: editor_step_other_scales)

text \<open>
  C1, as the program has it. From a task whose schedule is absent or has
  \<open>start \<le> end\<close> on every scale, every sequence of pointer events on the task bar
  (pointer-down, the frames of a move, resize-start or resize-end drag, pointer-up)
  keeps \<open>start \<le> end\<close> on all four scales. Every sequence of edits of any kind,
  pointer events and changes of the number fields alike, leaves the intervals of the
  three scales that are not the active one as they were. A change of a number field
  bounds the typed value and writes it without looking at the other field.
\<close>

theorem C1_pointer_events_keep_order:
  assumes "0 < cellWidth"
      and "scaleSchedule task = None \<or> ordered (currentSchedule task)"
  shows "ordered (currentSchedule
           (shown_task (run_pointer project cellWidth (initial_drag task) evs)))
       \<and> (\<forall>sc. sc \<noteq> viewScale project \<longrightarrow>
             scale_get (currentSchedule
               (shown_task (run_editor project cellWidth (initial_drag task) evs'))) sc
             = scale_get (currentSchedule task) sc)"
proof -
  have "ordered (currentSchedule task)"
    using assms(2) by (auto simp add: currentSchedule_def ordered_DEFAULT)
  then have "drag_ordered (initial_drag task)"
    by (simp add: drag_ordered_def initial_drag_def)
  then have "drag_ordered (run_pointer project cellWidth (initial_drag task) evs)"
    by (rule run_pointer_ordered)
  then have 1: "ordered (currentSchedule
           (shown_task (run_pointer project cellWidth (initial_drag task) evs)))"
    by (simp add: drag_ordered_def)
  have 2: "\<forall>sc. sc \<noteq> viewScale project \<longrightarrow>
             scale_get (currentSchedule
               (shown_task (run_editor project cellWidth (initial_drag task) evs'))) sc
             = scale_get (currentSchedule task) sc"
    by (simp add: run_editor_other_scales initial_drag_def)
  show ?thesis using 1 2 by simp
qed

theorem C1_pointer_events_keep_order_witness:
  "(0::rat) < 32 \<and> ordered (currentSchedule day_2_4)
   \<and> ordered (currentSchedule
         (shown_task (run_pointer (demo_project Day) 32 (initial_drag day_2_4) sample_pointer_events)))
   \<and> getScaleValue (demo_project Day)
         (shown_task (run_pointer (demo_project Day) 32 (initial_drag day_2_4) sample_pointer_events))
         FStart = 4
   \<and> getScaleValue (demo_project Day)
         (shown_task (run_pointer (demo_project Day) 32 (initial_drag day_2_4) sample_pointer_events))
         FEnd = 7
   \<and> scale_get (currentSchedule
         (shown_task (run_editor (demo_project Day) 32 (initial_drag day_2_4) sample_editor_events)))
         Hour = \<lparr>start = 480, endv = 540\<rparr>"
proof -
  have o: "ordered (currentSchedule day_2_4)"
    by (simp add: ordered_def currentSchedule_def day_2_4_def demo_task_def
          DEFAULT_SCALE_SCHEDULE_def)
  have h: "scale_get (currentSchedule day_2_4) Hour = \<lparr>start = 480, endv = 540\<rparr>"
    by (simp add: currentSchedule_def day_2_4_def demo_task_def DEFAULT_SCALE_SCHEDULE_def)
  have v1: "getScaleValue (demo_project Day)
         (shown_task (run_pointer (demo_project Day) 32 (initial_drag day_2_4) sample_pointer_events))
         FStart = 4"
    by code_simp
  have v2: "getScaleValue (demo_project Day)
         (shown_task (run_pointer (demo_project Day) 32 (initial_drag day_2_4) sample_pointer_events))
         FEnd = 7"
    by code_simp
  have p: "(0::rat) < 32" by simp
  have q: "scaleSchedule day_2_4 = None \<or> ordered (currentSchedule day_2_4)"
    using o by simp
  note c = C1_pointer_events_keep_order [where cellWidth = 32 and task = day_2_4
        and project = "demo_project Day" and evs = sample_pointer_events
        and evs' = sample_editor_events, OF p q]
  have k: "scale_get (currentSchedule
         (shown_task (run_editor (demo_project Day) 32 (initial_drag day_2_4) sample_editor_events)))
         Hour = \<lparr>start = 480, endv = 540\<rparr>"
    using c [THEN conjunct2, rule_format, of Hour] h by simp
  show ?thesis
    using p o v1 v2 k c [THEN conjunct1] by simp
qed

text \<open>
  A change of a number field can leave \<open>start > end\<close> on the active scale: on the day
  scale with a window of 7 days, typing 5 into the start box of a task on its default
  interval 1 to 3 writes the interval 5 to 3.
\<close>

theorem C1_field_update_counterexample:
  "ordered (currentSchedule (demo_task None))
   \<and> getScaleValue (demo_project Day)
        (dayInput_onChange (demo_project Day) (demo_task None) FStart (Some 5)) FStart = 5
   \<and> getScaleValue (demo_project Day)
        (dayInput_onChange (demo_project Day) (demo_task None) FStart (Some 5)) FEnd = 3
   \<and> \<not> ordered (currentSchedule
          (dayInput_onChange (demo_project Day) (demo_task None) FStart (Some 5)))"
proof -
  have t: "dayInput_onChange (demo_project Day) (demo_task None) FStart (Some 5)
        = demo_task (Some (DEFAULT_SCALE_SCHEDULE\<lparr>day := \<lparr>start = 5, endv = 3\<rparr>\<rparr>))"
    by (simp add: dayInput_onChange_def Let_def or_else_def demo_day_bounds
          ChartCalendar_updateScaleValue_def updateTask_def currentSchedule_def demo_task_def
          DEFAULT_SCALE_SCHEDULE_def)
  show ?thesis unfolding t
    by (simp add: ordered_def getScaleValue_def currentSchedule_def demo_task_def
          DEFAULT_SCALE_SCHEDULE_def)
qed

section \<open>Hour values on the 5-minute grid\<close>

lemma dvd5_max_min:
  "(5::int) dvd a \<Longrightarrow> 5 dvd b \<Longrightarrow> 5 dvd max a b"
  "(5::int) dvd a \<Longrightarrow> 5 dvd b \<Longrightarrow> 5 dvd min a b"
  by (simp_all add: max_def min_def)

lemma dvd5_minutes: "5 dvd startMinutes project" "5 dvd endMinutes project"
  by (simp_all add: startMinutes_def endMinutes_def)

lemma dvd5_newValue: "viewScale project = Hour \<Longrightarrow> 5 dvd newValue project cellWidth x"
  by (simp add: newValue_def Let_def dvd5_minutes)

lemma dvd5_hoursAndMinutesToMinutes: "5 dvd hoursAndMinutesToMinutes h m"
  by (simp add: hoursAndMinutesToMinutes_def Let_def)

lemma hour_bounds:
  "viewScale project = Hour \<Longrightarrow> getMinValue project = startMinutes project"
  "viewScale project = Hour \<Longrightarrow> getMaxValue project = endMinutes project"
  by (simp_all add: getMinValue_def getMaxValue_def)

lemma getScaleValue_Hour:
  "viewScale project = Hour \<Longrightarrow> getScaleValue project task FStart = start (hour (currentSchedule task))"
  "viewScale project = Hour \<Longrightarrow> getScaleValue project task FEnd = endv (hour (currentSchedule task))"
  by (simp_all add: getScaleValue_def)

lemma hour_on_grid_getScaleValue:
  "viewScale project = Hour \<Longrightarrow>
   hour_on_grid task \<longleftrightarrow>
     5 dvd getScaleValue project task FStart \<and> 5 dvd getScaleValue project task FEnd"
  by (simp add: hour_on_grid_def getScaleValue_Hour)

lemma hour_on_grid_other_scale:
  "viewScale project \<noteq> Hour \<Longrightarrow>
   scale_get (currentSchedule task') Hour = scale_get (currentSchedule task) Hour \<Longrightarrow>
   hour_on_grid task' = hour_on_grid task"
  by (simp add: hour_on_grid_def)

lemma TaskBar_update_on_grid:
  assumes "viewScale project = Hour" and "hour_on_grid task" and "5 dvd v"
  shows "hour_on_grid (TaskBar_updateScaleValue project task f v)"
  using assms
  by (cases f)
     (simp_all add: hour_on_grid_getScaleValue getScaleValue_TaskBar_update hour_bounds
        dvd5_max_min dvd5_minutes)

lemma ChartCalendar_update_on_grid:
  assumes "viewScale project = Hour" and "hour_on_grid task" and "5 dvd v"
  shows "hour_on_grid (ChartCalendar_updateScaleValue project task f v)"
  using assms
  by (cases f)
     (simp_all add: hour_on_grid_getScaleValue getScaleValue_ChartCalendar_update)

lemma handleMouseMove_on_grid:
  assumes h: "viewScale project = Hour"
      and g: "hour_on_grid task"
      and o: "5 dvd start origin" "5 dvd endv origin"
      and res: "handleMouseMove project task cellWidth ty origin x = Some task'"
  shows "hour_on_grid task'"
proof (cases ty)
  case Move
  define d where "d = endv origin - start origin"
  define ns where
    "ns = max (getMinValue project) (min (getMaxValue project - d) (newValue project cellWidth x))"
  have d5: "5 dvd d" unfolding d_def using o(2) o(1) by (rule dvd_diff)
  have s5: "5 dvd ns"
    unfolding ns_def using d5 h by (simp add: dvd5_max_min dvd5_minutes dvd5_newValue hour_bounds)
  have t: "task' = updateTask task
             (scale_set (currentSchedule task) (viewScale project) \<lparr>start = ns, endv = ns + d\<rparr>)"
    using res Move by (simp add: handleMouseMove_def Let_def ns_def d_def)
  show ?thesis
    unfolding t hour_on_grid_getScaleValue [OF h] getScaleValue_move
    using s5 d5 by simp
next
  case ResizeStart
  then show ?thesis
    using res h g TaskBar_update_on_grid [OF h g dvd5_newValue [OF h]]
    by (auto simp add: handleMouseMove_def Let_def split: if_splits)
next
  case ResizeEnd
  have "5 dvd newValue project cellWidth x + 5"
    using dvd5_newValue [OF h, of cellWidth x] by simp
  then show ?thesis
    using res h g ResizeEnd TaskBar_update_on_grid [OF h g]
    by (auto simp add: handleMouseMove_def Let_def split: if_splits)
qed

lemma editor_step_on_grid:
  assumes "drag_on_grid project st"
  shows "drag_on_grid project (editor_step project cellWidth st ev)"
proof (cases "viewScale project = Hour")
  case False
  have "scale_get (currentSchedule (shown_task (editor_step project cellWidth st ev))) Hour =
        scale_get (currentSchedule (shown_task st)) Hour"
    using False by (intro editor_step_other_scales) simp
  then have "hour_on_grid (shown_task (editor_step project cellWidth st ev)) =
        hour_on_grid (shown_task st)"
    using False hour_on_grid_other_scale by blast
  then show ?thesis using assms False by (simp add: drag_on_grid_def)
next
  case True
  show ?thesis
  proof (cases ev)
    case (Pointer e)
    show ?thesis
    proof (cases e)
      case (MouseDown ty)
      then show ?thesis
        using Pointer assms True
        by (simp add: drag_on_grid_def handleMouseDown_def hour_on_grid_getScaleValue)
    next
      case (MouseMove x)
      then show ?thesis
        using Pointer assms True
          handleMouseMove_on_grid [of project "shown_task st" _ cellWidth _ x]
        by (auto simp add: drag_on_grid_def split: option.splits bool.splits)
    next
      case MouseUp
      then show ?thesis
        using Pointer assms
        by (auto simp add: drag_on_grid_def handleMouseUp_def split: option.splits bool.splits)
    qed
  next
    case (HoursInput f p)
    then show ?thesis
      using assms True
      by (simp add: drag_on_grid_def hoursInput_onChange_def Let_def case_prod_beta
            ChartCalendar_update_on_grid dvd5_max_min dvd5_minutes dvd5_hoursAndMinutesToMinutes)
  next
    case (MinutesInput f p)
    then show ?thesis
      using assms True
      by (simp add: drag_on_grid_def minutesInput_onChange_def Let_def case_prod_beta
            ChartCalendar_update_on_grid dvd5_max_min dvd5_minutes dvd5_hoursAndMinutesToMinutes)
  next
    case (DayInput f p)
    then show ?thesis using assms True by simp
  qed
qed

lemma run_editor_on_grid:
  "drag_on_grid project st \<Longrightarrow> drag_on_grid project (run_editor project cellWidth st evs)"
  unfolding run_editor_def
  by (induction evs arbitrary: st) (simp_all add: editor_step_on_grid)

text \<open>
  C3, as the program has it. On the hour scale the task bar's update bounds the value
  to \<open>[minValue, maxValue]\<close> and does not round it; the drag only hands it values
  \<open>startHour*60 + 5*index\<close>. The two time boxes of the chart calendar build the value
  from the hours and the minutes rounded to the nearest multiple of 5 and bound it:
  what they write is a multiple of 5, within \<open>[startHour*60, endHour*60]\<close> when
  \<open>startHour \<le> endHour\<close>. Hence, from a task whose hour interval is absent or on the
  5-minute grid, both fields of the hour interval are multiples of 5 after every
  sequence of pointer events and field changes.
\<close>

theorem C3_hour_values_stay_on_grid:
  assumes "0 < cellWidth"
      and "scaleSchedule task = None \<or> hour_on_grid task"
  shows "hour_on_grid (shown_task (run_editor project cellWidth (initial_drag task) evs))
       \<and> getScaleValue project (TaskBar_updateScaleValue project task f v) f
           = max (getMinValue project) (min (getMaxValue project) v)
       \<and> 5 dvd getScaleValue project (hoursInput_onChange project task f p) f
       \<and> 5 dvd getScaleValue project (minutesInput_onChange project task f p) f
       \<and> (startMinutes project \<le> endMinutes project \<longrightarrow>
             startMinutes project \<le> getScaleValue project (hoursInput_onChange project task f p) f
             \<and> getScaleValue project (hoursInput_onChange project task f p) f \<le> endMinutes project
             \<and> startMinutes project \<le> getScaleValue project (minutesInput_onChange project task f p) f
             \<and> getScaleValue project (minutesInput_onChange project task f p) f
                 \<le> endMinutes project)"
proof -
  have "hour_on_grid task"
    using assms(2) by (auto simp add: hour_on_grid_def currentSchedule_def DEFAULT_SCALE_SCHEDULE_def)
  then have "drag_on_grid project (initial_drag task)"
    by (simp add: drag_on_grid_def initial_drag_def)
  then have "drag_on_grid project (run_editor project cellWidth (initial_drag task) evs)"
    by (rule run_editor_on_grid)
  then have 1: "hour_on_grid (shown_task (run_editor project cellWidth (initial_drag task) evs))"
    by (simp add: drag_on_grid_def)
  have 2: "getScaleValue project (TaskBar_updateScaleValue project task f v) f
           = max (getMinValue project) (min (getMaxValue project) v)"
    by (simp add: getScaleValue_TaskBar_update)
  have 3: "5 dvd getScaleValue project (hoursInput_onChange project task f p) f"
    by (simp add: hoursInput_onChange_def Let_def case_prod_beta getScaleValue_ChartCalendar_update
          dvd5_max_min dvd5_minutes dvd5_hoursAndMinutesToMinutes)
  have 4: "5 dvd getScaleValue project (minutesInput_onChange project task f p) f"
    by (simp add: minutesInput_onChange_def Let_def case_prod_beta getScaleValue_ChartCalendar_update
          dvd5_max_min dvd5_minutes dvd5_hoursAndMinutesToMinutes)
  have 5: "startMinutes project \<le> getScaleValue project (hoursInput_onChange project task f p) f
        \<and> getScaleValue project (hoursInput_onChange project task f p) f \<le> endMinutes project"
    if "startMinutes project \<le> endMinutes project"
    using that
    by (simp add: hoursInput_onChange_def Let_def case_prod_beta getScaleValue_ChartCalendar_update)
  have 6: "startMinutes project \<le> getScaleValue project (minutesInput_onChange project task f p) f
        \<and> getScaleValue project (minutesInput_onChange project task f p) f \<le> endMinutes project"
    if "startMinutes project \<le> endMinutes project"
    using that
    by (simp add: minutesInput_onChange_def Let_def case_prod_beta getScaleValue_ChartCalendar_update)
  show ?thesis using 1 2 3 4 5 6 by simp
qed

theorem C3_hour_values_stay_on_grid_witness:
  "(0::rat) < 24 \<and> hour_on_grid (demo_task None)
   \<and> hour_on_grid (shown_task
         (run_editor (demo_project Hour) 24 (initial_drag (demo_task None)) sample_editor_events))
   \<and> scale_get (currentSchedule (shown_task
         (run_editor (demo_project Hour) 24 (initial_drag (demo_task None)) sample_editor_events)))
         Hour = \<lparr>start = 530, endv = 610\<rparr>
   \<and> getScaleValue (demo_project Hour)
         (minutesInput_onChange (demo_project Hour) (demo_task None) FStart (Some 32)) FStart = 510"
proof -
  have g: "hour_on_grid (demo_task None)"
    by (simp add: hour_on_grid_def currentSchedule_def demo_task_def DEFAULT_SCALE_SCHEDULE_def)
  have v: "scale_get (currentSchedule (shown_task
         (run_editor (demo_project Hour) 24 (initial_drag (demo_task None)) sample_editor_events)))
         Hour = \<lparr>start = 530, endv = 610\<rparr>"
    by code_simp
  have m: "getScaleValue (demo_project Hour)
         (minutesInput_onChange (demo_project Hour) (demo_task None) FStart (Some 32)) FStart = 510"
    by code_simp
  have p: "(0::rat) < 24" by simp
  have q: "scaleSchedule (demo_task None) = None \<or> hour_on_grid (demo_task None)"
    using g by simp
  note c = C3_hour_values_stay_on_grid [where cellWidth = 24 and task = "demo_task None"
        and project = "demo_project Hour" and evs = sample_editor_events, OF p q]
  show ?thesis
    using p g v m c [THEN conjunct1] by simp
qed

text \<open>
  The task bar's update does not round: given the raw value 483 in the window 8 to 18
  it writes 483, where rounding to the nearest multiple of 5 and bounding gives 485.
\<close>

theorem C3_update_without_rounding_counterexample:
  "getScaleValue (demo_project Hour)
     (TaskBar_updateScaleValue (demo_project Hour) (demo_task None) FStart 483) FStart = 483
   \<and> \<not> 5 dvd (483::int)
   \<and> Math_round (483 / 5) * 5 = 485
   \<and> max (getMinValue (demo_project Hour)) (min (getMaxValue (demo_project Hour)) 485) = 485"
proof -
  have r: "Math_round (483 / 5) * 5 = 485"
    by (simp add: Math_round_def floor_eq_iff)
  show ?thesis
    using r by (simp add: getScaleValue_TaskBar_update demo_hour_bounds)
qed

section \<open>Adding working days\<close>

lemma loop_done:
  "\<not> count < n \<Longrightarrow> addWorkdays_loop jp settings n c count = Some c"
  by (subst addWorkdays_loop.simps) simp

lemma loop_step_working:
  "count < n \<Longrightarrow> \<not> isNonWorkday jp (c + 1) settings \<Longrightarrow>
   addWorkdays_loop jp settings n c count = addWorkdays_loop jp settings n (c + 1) (count + 1)"
  by (subst addWorkdays_loop.simps) (simp add: addDays_def)

lemma loop_step_nonworking:
  "count < n \<Longrightarrow> isNonWorkday jp (c + 1) settings \<Longrightarrow>
   addWorkdays_loop jp settings n c count = addWorkdays_loop jp settings n (c + 1) count"
  by (subst addWorkdays_loop.simps) (simp add: addDays_def)

lemma loop_skip:
  assumes "count < n" and "\<not> isNonWorkday jp w settings"
      and "\<forall>d. c < d \<and> d < w \<longrightarrow> isNonWorkday jp d settings"
      and "c < w"
  shows "addWorkdays_loop jp settings n c count = addWorkdays_loop jp settings n w (count + 1)"
  using assms
proof (induction "nat (w - c)" arbitrary: c)
  case 0
  then show ?case by simp
next
  case (Suc k)
  show ?case
  proof (cases "c + 1 = w")
    case True
    then show ?thesis using Suc.prems loop_step_working [of count n jp c settings] by simp
  next
    case False
    then have lt: "c + 1 < w" using Suc.prems by simp
    have nw: "isNonWorkday jp (c + 1) settings" using Suc.prems lt by simp
    have k: "k = nat (w - (c + 1))" using Suc.hyps(2) by simp
    have "addWorkdays_loop jp settings n c count = addWorkdays_loop jp settings n (c + 1) count"
      using Suc.prems(1) nw by (rule loop_step_nonworking)
    also have "\<dots> = addWorkdays_loop jp settings n w (count + 1)"
      using Suc.hyps(1) [OF k Suc.prems(1,2) _ lt] Suc.prems(3) by simp
    finally show ?thesis .
  qed
qed

lemma next_working_day:
  assumes "\<exists>d>c. \<not> isNonWorkday jp d settings"
  shows "\<exists>w>c. \<not> isNonWorkday jp w settings \<and> (\<forall>d. c < d \<and> d < w \<longrightarrow> isNonWorkday jp d settings)"
proof -
  define P where "P k = (\<not> isNonWorkday jp (c + 1 + int k) settings)" for k
  obtain d where d: "c < d" "\<not> isNonWorkday jp d settings" using assms by blast
  have "P (nat (d - c - 1))" using d by (simp add: P_def)
  then have ex: "\<exists>k. P k" ..
  define m where "m = (LEAST k. P k)"
  have Pm: "P m" unfolding m_def using ex by (rule LeastI_ex)
  have least: "\<not> P j" if "j < m" for j using that not_less_Least m_def by blast
  have "\<forall>e. c < e \<and> e < c + 1 + int m \<longrightarrow> isNonWorkday jp e settings"
  proof (intro allI impI)
    fix e assume e: "c < e \<and> e < c + 1 + int m"
    then have "nat (e - c - 1) < m" by linarith
    then have "\<not> P (nat (e - c - 1))" by (rule least)
    then show "isNonWorkday jp e settings" using e by (simp add: P_def)
  qed
  then show ?thesis using Pm by (intro exI [of _ "c + 1 + int m"]) (simp add: P_def)
qed

lemma loop_terminates:
  assumes "\<forall>d\<ge>c. \<exists>d'>d. \<not> isNonWorkday jp d' settings"
  shows "\<exists>r. addWorkdays_loop jp settings n c count = Some r
           \<and> (if count < n
               then c < r \<and> \<not> isNonWorkday jp r settings
                    \<and> int (length (filter (\<lambda>d. \<not> isNonWorkday jp d settings) [c + 1..r])) = n - count
               else r = c)"
  using assms
proof (induction "nat (n - count)" arbitrary: c count)
  case 0
  then have "\<not> count < n" by simp
  then show ?case by (simp add: loop_done)
next
  case (Suc k)
  then have lt: "count < n" by simp
  have "\<exists>d>c. \<not> isNonWorkday jp d settings" using Suc.prems by blast
  then obtain w where w: "c < w" "\<not> isNonWorkday jp w settings"
      "\<forall>d. c < d \<and> d < w \<longrightarrow> isNonWorkday jp d settings"
    using next_working_day by blast
  have eq: "addWorkdays_loop jp settings n c count = addWorkdays_loop jp settings n w (count + 1)"
    using lt w(2,3,1) by (rule loop_skip)
  have k: "k = nat (n - (count + 1))" using Suc.hyps(2) by simp
  have inf: "\<forall>d\<ge>w. \<exists>d'>d. \<not> isNonWorkday jp d' settings" using Suc.prems w(1) by simp
  obtain r where r: "addWorkdays_loop jp settings n w (count + 1) = Some r"
      "if count + 1 < n
       then w < r \<and> \<not> isNonWorkday jp r settings
            \<and> int (length (filter (\<lambda>d. \<not> isNonWorkday jp d settings) [w + 1..r])) = n - (count + 1)
       else r = w"
    using Suc.hyps(1) [OF k inf] by blast
  have none: "filter (\<lambda>d. \<not> isNonWorkday jp d settings) [c + 1..w - 1] = []"
    using w(3) by (auto simp add: filter_empty_conv)
  show ?case
  proof (cases "count + 1 < n")
    case True
    then have r': "w < r" "\<not> isNonWorkday jp r settings"
        "int (length (filter (\<lambda>d. \<not> isNonWorkday jp d settings) [w + 1..r])) = n - (count + 1)"
      using r(2) by simp_all
    have split: "[c + 1..r] = [c + 1..w - 1] @ w # [w + 1..r]"
      using w(1) r'(1) by (intro upto_split3) simp_all
    have "int (length (filter (\<lambda>d. \<not> isNonWorkday jp d settings) [c + 1..r])) = n - count"
      unfolding split using none w(2) r'(3) by simp
    then show ?thesis using eq r(1) r' w(1) lt by simp
  next
    case False
    then have rw: "r = w" using r(2) by simp
    have n: "n = count + 1" using False lt by simp
    have split: "[c + 1..w] = [c + 1..w - 1] @ [w]"
      using w(1) upto_rec2 [of "c + 1" w] by simp
    have "int (length (filter (\<lambda>d. \<not> isNonWorkday jp d settings) [c + 1..w])) = 1"
      unfolding split using none w(2) by simp
    then show ?thesis using eq r(1) rw w lt n by simp
  qed
qed

lemma isNonWorkday_DEFAULT:
  "isNonWorkday jp d DEFAULT_WORKDAY_SETTINGS \<longleftrightarrow> isSunday d \<or> jp d"
  by (simp add: isNonWorkday_def DEFAULT_WORKDAY_SETTINGS_def isHoliday_def Let_def)

lemma working_days_2024_unbounded:
  "\<exists>d'>d. \<not> isNonWorkday holidays_2024 d' DEFAULT_WORKDAY_SETTINGS"
proof -
  define m where "m = max d 19776"
  have h: "\<not> holidays_2024 (m + 1)" "\<not> holidays_2024 (m + 2)"
    by (auto simp add: holidays_2024_def m_def max_def)
  have "\<not> isSunday (m + 1) \<or> \<not> isSunday (m + 2)"
    unfolding isSunday_def by presburger
  then have "\<not> isNonWorkday holidays_2024 (m + 1) DEFAULT_WORKDAY_SETTINGS
        \<or> \<not> isNonWorkday holidays_2024 (m + 2) DEFAULT_WORKDAY_SETTINGS"
    using h by (simp add: isNonWorkday_DEFAULT)
  moreover have "d < m + 1" "d < m + 2" by (simp_all add: m_def)
  ultimately show ?thesis by blast
qed

text \<open>
  C9. \<open>addWorkdays(start, 0, settings)\<close> returns \<open>start\<close>, whether or not it is a
  working day. For \<open>n \<ge> 1\<close>, when after every day from \<open>start\<close> on there is a later
  working day, \<open>addWorkdays(start, n, settings)\<close> terminates and returns a date strictly
  after \<open>start\<close> that is a working day; exactly \<open>n\<close> working days lie between the day
  after \<open>start\<close> and the result, so \<open>start\<close> itself is not counted.
\<close>

theorem C9_addWorkdays:
  "addWorkdays jp startd 0 settings = Some startd
   \<and> (1 \<le> n \<and> (\<forall>d\<ge>startd. \<exists>d'>d. \<not> isNonWorkday jp d' settings) \<longrightarrow>
        (\<exists>r. addWorkdays jp startd n settings = Some r
              \<and> startd < r \<and> \<not> isNonWorkday jp r settings
              \<and> int (length (filter (\<lambda>d. \<not> isNonWorkday jp d settings) [startd + 1..r])) = n))"
proof -
  have 1: "addWorkdays jp startd 0 settings = Some startd"
    by (simp add: addWorkdays_def loop_done)
  have 2: "\<exists>r. addWorkdays jp startd n settings = Some r
              \<and> startd < r \<and> \<not> isNonWorkday jp r settings
              \<and> int (length (filter (\<lambda>d. \<not> isNonWorkday jp d settings) [startd + 1..r])) = n"
    if "1 \<le> n" and "\<forall>d\<ge>startd. \<exists>d'>d. \<not> isNonWorkday jp d' settings"
    using loop_terminates [OF that(2), of n 0] that(1) by (auto simp add: addWorkdays_def)
  show ?thesis using 1 2 by blast
qed


theorem C9_addWorkdays_witness:
  "(1::int) \<le> 3
   \<and> addWorkdays holidays_2024 19722 3 DEFAULT_WORKDAY_SETTINGS = Some 19726
   \<and> (19722::int) < 19726
   \<and> \<not> isNonWorkday holidays_2024 19726 DEFAULT_WORKDAY_SETTINGS
   \<and> length (filter (\<lambda>d. \<not> isNonWorkday holidays_2024 d DEFAULT_WORKDAY_SETTINGS)
        [19722 + 1..19726]) = 3
   \<and> addWorkdays holidays_2024 19722 0 DEFAULT_WORKDAY_SETTINGS = Some 19722"
proof -
  have e: "addWorkdays holidays_2024 19722 3 DEFAULT_WORKDAY_SETTINGS = Some 19726"
    by code_simp
  have inf: "\<forall>d\<ge>19722. \<exists>d'>d. \<not> isNonWorkday holidays_2024 d' DEFAULT_WORKDAY_SETTINGS"
    using working_days_2024_unbounded by blast
  show ?thesis
    using C9_addWorkdays [of holidays_2024 19722 DEFAULT_WORKDAY_SETTINGS 3] inf e
    by auto
qed

end
